theory Spec2Isabelle
  imports Complex_Main "HOL-Library.Multiset"
begin

text \<open>
  A model of the generation-and-approval pipeline of the Wabrum content bot:
  the job store (\<^verbatim>\<open>database/models.py\<close>), the render client
  (\<^verbatim>\<open>services/klingai.py\<close>), the curator (\<^verbatim>\<open>services/claude_stylist.py\<close>), the
  scheduled run (\<^verbatim>\<open>services/scheduler.py\<close>) and the manual run with its callbacks
  (\<^verbatim>\<open>bot/handlers.py\<close>).  The store is an explicit value passed through every
  operation; what the outside world answers (catalog, curator, render service) is a
  parameter of the run; every exception of the source is a value of type \<open>exn\<close>.
\<close>

section \<open>Clock values and their two textual forms\<close>

text \<open>
  The pipeline reads the clock in two places.  Python's
  \<^verbatim>\<open>datetime.now(timezone.utc)\<close> yields a broken-down UTC time, and SQLite's
  \<^verbatim>\<open>DEFAULT CURRENT_TIMESTAMP\<close> (columns \<^verbatim>\<open>created_at\<close>, \<^verbatim>\<open>updated_at\<close>,
  \<^verbatim>\<open>started_at\<close> of \<^verbatim>\<open>database/db.py\<close>) stores the same UTC instant as text.
  A clock value is a record of the fields of a Python \<^verbatim>\<open>datetime\<close> whose
  \<^verbatim>\<open>tzinfo\<close> is UTC.
\<close>

record datetime =
  year :: nat
  month :: nat
  day :: nat
  hour :: nat
  minute :: nat
  second :: nat
  microsecond :: nat

definition leap_year :: "nat \<Rightarrow> bool" where
  "leap_year y = (y mod 4 = 0 \<and> (y mod 100 \<noteq> 0 \<or> y mod 400 = 0))"

definition days_in_month :: "nat \<Rightarrow> nat \<Rightarrow> nat" where
  "days_in_month y m =
     (if m = 2 then (if leap_year y then 29 else 28)
      else if m = 4 \<or> m = 6 \<or> m = 9 \<or> m = 11 then 30 else 31)"

text \<open>The values a \<^verbatim>\<open>datetime\<close> object can hold (Python: years 1 to 9999).\<close>

definition valid_datetime :: "datetime \<Rightarrow> bool" where
  "valid_datetime t =
     (1 \<le> year t \<and> year t \<le> 9999 \<and> 1 \<le> month t \<and> month t \<le> 12 \<and>
      1 \<le> day t \<and> day t \<le> days_in_month (year t) (month t) \<and>
      hour t < 24 \<and> minute t < 60 \<and> second t < 60 \<and> microsecond t < 1000000)"

definition digit :: "nat \<Rightarrow> char" where
  "digit n = ''0123456789'' ! (n mod 10)"

text \<open>
  Zero-padded decimal fields of fixed width, as both \<^verbatim>\<open>isoformat()\<close>
  (\<^verbatim>\<open>%04d-%02d-%02d\<close>) and SQLite print them for the values of a valid clock value.
\<close>

definition pad2 :: "nat \<Rightarrow> string" where
  "pad2 n = [digit (n div 10), digit n]"

definition pad4 :: "nat \<Rightarrow> string" where
  "pad4 n = [digit (n div 1000), digit (n div 100), digit (n div 10), digit n]"

definition pad6 :: "nat \<Rightarrow> string" where
  "pad6 n = [digit (n div 100000), digit (n div 10000), digit (n div 1000),
             digit (n div 100), digit (n div 10), digit n]"

definition fmt_date :: "datetime \<Rightarrow> string" where
  "fmt_date t = pad4 (year t) @ ''-'' @ pad2 (month t) @ ''-'' @ pad2 (day t)"

definition fmt_time :: "datetime \<Rightarrow> string" where
  "fmt_time t = pad2 (hour t) @ '':'' @ pad2 (minute t) @ '':'' @ pad2 (second t)"

text \<open>
  SQLite's \<^verbatim>\<open>CURRENT_TIMESTAMP\<close>: the UTC time as \<^verbatim>\<open>YYYY-MM-DD HH:MM:SS\<close>,
  date and time separated by one space.
\<close>

definition CURRENT_TIMESTAMP :: "datetime \<Rightarrow> string" where
  "CURRENT_TIMESTAMP t = fmt_date t @ '' '' @ fmt_time t"

text \<open>
  Python's \<^verbatim>\<open>datetime.isoformat()\<close> on a UTC-aware value:
  \<^verbatim>\<open>YYYY-MM-DDTHH:MM:SS[.ffffff]+00:00\<close>, date and time separated by the letter T, the
  fraction printed only when \<^verbatim>\<open>microsecond\<close> is not zero.
\<close>

definition isoformat :: "datetime \<Rightarrow> string" where
  "isoformat t =
     fmt_date t @ ''T'' @ fmt_time t @
     (if microsecond t = 0 then [] else ''.'' @ pad6 (microsecond t)) @ ''+00:00''"

text \<open>
  SQLite compares two TEXT values under the default BINARY collation with
  \<^verbatim>\<open>memcmp\<close>: byte by byte, a proper prefix being smaller.  The columns are declared
  \<^verbatim>\<open>TIMESTAMP\<close> (NUMERIC affinity); a value that is not a well-formed number stays
  TEXT, on both sides of the comparison.  \<open>text_le a b\<close> is \<^verbatim>\<open>a <= b\<close>.
\<close>

fun text_le :: "string \<Rightarrow> string \<Rightarrow> bool" where
  "text_le [] b = True"
| "text_le (x # xs) [] = False"
| "text_le (x # xs) (y # ys) =
     (if (of_char x :: nat) < of_char y then True
      else if (of_char y :: nat) < of_char x then False
      else text_le xs ys)"

definition sql_ge :: "string \<Rightarrow> string \<Rightarrow> bool" where
  "sql_ge a b = text_le b a"

text \<open>The UTC calendar date of a clock value, and the order of dates.\<close>

definition utc_date :: "datetime \<Rightarrow> nat \<times> nat \<times> nat" where
  "utc_date t = (year t, month t, day t)"

fun date_less :: "nat \<times> nat \<times> nat \<Rightarrow> nat \<times> nat \<times> nat \<Rightarrow> bool" where
  "date_less (y1, m1, d1) (y2, m2, d2) =
     (y1 < y2 \<or> (y1 = y2 \<and> (m1 < m2 \<or> (m1 = m2 \<and> d1 < d2))))"

text \<open>
  The calendar date of the same instant on a clock five hours ahead of UTC (Ashgabat).
  The source never computes it; it is the day the specification calls the business
  day, defined here only to compare the source's day boundary with it.
\<close>

definition next_day :: "nat \<times> nat \<times> nat \<Rightarrow> nat \<times> nat \<times> nat" where
  "next_day ymd =
     (case ymd of (y, m, d) \<Rightarrow>
        if d < days_in_month y m then (y, m, d + 1)
        else if m < 12 then (y, m + 1, 1)
        else (y + 1, 1, 1))"

definition business_date_utc5 :: "datetime \<Rightarrow> nat \<times> nat \<times> nat" where
  "business_date_utc5 t = (if hour t + 5 < 24 then utc_date t else next_day (utc_date t))"

section \<open>Exceptions\<close>

datatype exn =
    APIError | JSONDecodeError | AttributeError | KeyError | IndexError
  | ValueError | ClientError | RuntimeError | IntegrityError

section \<open>The job store\<close>

text \<open>
  The three tables of \<^verbatim>\<open>database/db.py\<close>.  Column names carry a prefix for their
  table (\<open>p_\<close>, \<open>vt_\<close>, \<open>s_\<close>), because all three tables have columns
  \<^verbatim>\<open>id\<close> and \<^verbatim>\<open>status\<close>.  A nullable column is an \<open>option\<close>.
\<close>

record product_row =
  p_id :: nat
  p_cscart_id :: string
  p_name :: string
  p_category :: "string option"
  p_image_url :: "string option"
  p_price :: "rat option"
  p_vendor :: "string option"
  p_ai_score :: rat
  p_created_at :: string

record video_task_row =
  vt_id :: nat
  vt_product_id :: nat
  vt_klingai_task_id :: "string option"
  vt_prompt :: "string option"
  vt_prompt_type :: "string option"
  vt_status :: string
  vt_video_url :: "string option"
  vt_telegram_message_id :: "int option"
  vt_created_at :: string
  vt_updated_at :: string

record session_row =
  s_id :: nat
  s_started_at :: string
  s_products_fetched :: nat
  s_products_selected :: nat
  s_videos_generated :: nat
  s_videos_approved :: nat
  s_status :: string

record db =
  products :: "product_row list"
  video_tasks :: "video_task_row list"
  generation_sessions :: "session_row list"

definition empty_db :: db where
  "empty_db = \<lparr>products = [], video_tasks = [], generation_sessions = []\<rparr>"

text \<open>
  \<^verbatim>\<open>INTEGER PRIMARY KEY AUTOINCREMENT\<close>: one more than the largest id used so far.
  No operation of the bot deletes a row, so that is the largest id in the table.
\<close>

definition next_id :: "nat list \<Rightarrow> nat" where
  "next_id ids = Suc (foldr max ids 0)"

subsection \<open>Products\<close>

definition get_product_by_cscart_id :: "db \<Rightarrow> string \<Rightarrow> product_row option" where
  "get_product_by_cscart_id d cid = find (\<lambda>p. p_cscart_id p = cid) (products d)"

text \<open>
  \<^verbatim>\<open>INSERT ... ON CONFLICT(cscart_id) DO UPDATE\<close>: an existing row keeps its id and
  \<^verbatim>\<open>created_at\<close>, the other columns are overwritten; otherwise a row is appended.
\<close>

definition upsert_product ::
  "db \<Rightarrow> datetime \<Rightarrow> string \<Rightarrow> string \<Rightarrow> string option \<Rightarrow> string option \<Rightarrow> rat option \<Rightarrow>
   string option \<Rightarrow> rat \<Rightarrow> db \<times> nat" where
  "upsert_product d now cid nm cat img pr ven score =
     (case get_product_by_cscart_id d cid of
        Some old \<Rightarrow>
          (d\<lparr>products :=
               map (\<lambda>p. if p_cscart_id p = cid
                          then p\<lparr>p_name := nm, p_category := cat, p_image_url := img,
                                  p_price := pr, p_vendor := ven, p_ai_score := score\<rparr>
                          else p) (products d)\<rparr>,
           p_id old)
      | None \<Rightarrow>
          (let i = next_id (map p_id (products d)) in
           (d\<lparr>products := products d @
                 [\<lparr>p_id = i, p_cscart_id = cid, p_name = nm, p_category = cat,
                   p_image_url = img, p_price = pr, p_vendor = ven, p_ai_score = score,
                   p_created_at = CURRENT_TIMESTAMP now\<rparr>]\<rparr>,
            i)))"

text \<open>
  \<^verbatim>\<open>product_has_video_today\<close>: the start of today is the current UTC time with the
  time of day set to zero, passed to SQLite as its \<^verbatim>\<open>isoformat()\<close> text; the query
  counts the rows of \<^verbatim>\<open>video_tasks JOIN products\<close> for the catalog id whose
  \<^verbatim>\<open>created_at >= ?\<close>, whatever their status; the answer is \<^verbatim>\<open>count > 0\<close>.
\<close>

definition today_start :: "datetime \<Rightarrow> datetime" where
  "today_start now = now\<lparr>hour := 0, minute := 0, second := 0, microsecond := 0\<rparr>"

definition product_has_video_today :: "db \<Rightarrow> datetime \<Rightarrow> string \<Rightarrow> bool" where
  "product_has_video_today d now cid =
     (let param = isoformat (today_start now);
          rows = [(vt, p). vt \<leftarrow> video_tasks d, p \<leftarrow> products d,
                           p_id p = vt_product_id vt,
                           p_cscart_id p = cid \<and> sql_ge (vt_created_at vt) param]
      in 0 < length rows)"

subsection \<open>Video tasks\<close>

text \<open>
  \<^verbatim>\<open>create_video_task\<close> inserts with status \<^verbatim>\<open>'submitted'\<close>; \<^verbatim>\<open>created_at\<close> and
  \<^verbatim>\<open>updated_at\<close> take the column default \<^verbatim>\<open>CURRENT_TIMESTAMP\<close>.  The connection runs
  with \<^verbatim>\<open>PRAGMA foreign_keys=ON\<close>, so a \<^verbatim>\<open>product_id\<close> without a product row is
  refused.
\<close>

definition create_video_task ::
  "db \<Rightarrow> datetime \<Rightarrow> nat \<Rightarrow> string \<Rightarrow> string \<Rightarrow> string \<Rightarrow> exn + db \<times> nat" where
  "create_video_task d now product_id klingai_task_id prompt prompt_type =
     (if product_id \<notin> set (map p_id (products d)) then Inl IntegrityError
      else
        (let i = next_id (map vt_id (video_tasks d)) in
         Inr (d\<lparr>video_tasks := video_tasks d @
                  [\<lparr>vt_id = i, vt_product_id = product_id,
                    vt_klingai_task_id = Some klingai_task_id, vt_prompt = Some prompt,
                    vt_prompt_type = Some prompt_type, vt_status = ''submitted'',
                    vt_video_url = None, vt_telegram_message_id = None,
                    vt_created_at = CURRENT_TIMESTAMP now,
                    vt_updated_at = CURRENT_TIMESTAMP now\<rparr>]\<rparr>, i)))"

text \<open>
  The keyword arguments of \<^verbatim>\<open>update_video_task\<close>: the callers pass \<^verbatim>\<open>status\<close>,
  \<^verbatim>\<open>video_url\<close> and \<^verbatim>\<open>telegram_message_id\<close>; an absent keyword is \<open>None\<close>.  With
  no keyword the function returns at once; otherwise it also writes
  \<^verbatim>\<open>updated_at\<close>, and the \<^verbatim>\<open>UPDATE ... WHERE id = ?\<close> has no other condition.
\<close>

record task_update =
  set_status :: "string option"
  set_video_url :: "string option"
  set_telegram_message_id :: "int option"

definition no_kwargs :: task_update where
  "no_kwargs = \<lparr>set_status = None, set_video_url = None, set_telegram_message_id = None\<rparr>"

definition apply_task_update :: "task_update \<Rightarrow> string \<Rightarrow> video_task_row \<Rightarrow> video_task_row" where
  "apply_task_update u stamp r =
     r\<lparr>vt_status := (case set_status u of None \<Rightarrow> vt_status r | Some v \<Rightarrow> v),
       vt_video_url := (case set_video_url u of None \<Rightarrow> vt_video_url r | Some v \<Rightarrow> Some v),
       vt_telegram_message_id :=
         (case set_telegram_message_id u of None \<Rightarrow> vt_telegram_message_id r
          | Some v \<Rightarrow> Some v),
       vt_updated_at := stamp\<rparr>"

definition update_video_task :: "db \<Rightarrow> datetime \<Rightarrow> nat \<Rightarrow> task_update \<Rightarrow> db" where
  "update_video_task d now task_id u =
     (if u = no_kwargs then d
      else d\<lparr>video_tasks :=
               map (\<lambda>r. if vt_id r = task_id then apply_task_update u (isoformat now) r else r)
                 (video_tasks d)\<rparr>)"

definition get_video_task :: "db \<Rightarrow> nat \<Rightarrow> video_task_row option" where
  "get_video_task d task_id = find (\<lambda>r. vt_id r = task_id) (video_tasks d)"

definition status_of :: "db \<Rightarrow> nat \<Rightarrow> string option" where
  "status_of d task_id = map_option vt_status (get_video_task d task_id)"

subsection \<open>Generation sessions\<close>

definition create_session :: "db \<Rightarrow> datetime \<Rightarrow> db \<times> nat" where
  "create_session d now =
     (let i = next_id (map s_id (generation_sessions d)) in
      (d\<lparr>generation_sessions := generation_sessions d @
            [\<lparr>s_id = i, s_started_at = CURRENT_TIMESTAMP now, s_products_fetched = 0,
              s_products_selected = 0, s_videos_generated = 0, s_videos_approved = 0,
              s_status = ''running''\<rparr>]\<rparr>, i))"

record session_update =
  set_products_fetched :: "nat option"
  set_products_selected :: "nat option"
  set_videos_generated :: "nat option"
  set_session_status :: "string option"

definition no_session_kwargs :: session_update where
  "no_session_kwargs = \<lparr>set_products_fetched = None, set_products_selected = None,
     set_videos_generated = None, set_session_status = None\<rparr>"

definition apply_session_update :: "session_update \<Rightarrow> session_row \<Rightarrow> session_row" where
  "apply_session_update u r =
     r\<lparr>s_products_fetched :=
         (case set_products_fetched u of None \<Rightarrow> s_products_fetched r | Some v \<Rightarrow> v),
       s_products_selected :=
         (case set_products_selected u of None \<Rightarrow> s_products_selected r | Some v \<Rightarrow> v),
       s_videos_generated :=
         (case set_videos_generated u of None \<Rightarrow> s_videos_generated r | Some v \<Rightarrow> v),
       s_status := (case set_session_status u of None \<Rightarrow> s_status r | Some v \<Rightarrow> v)\<rparr>"

definition update_session :: "db \<Rightarrow> nat \<Rightarrow> session_update \<Rightarrow> db" where
  "update_session d session_id u =
     (if u = no_session_kwargs then d
      else d\<lparr>generation_sessions :=
               map (\<lambda>r. if s_id r = session_id then apply_session_update u r else r)
                 (generation_sessions d)\<rparr>)"

definition session_status :: "db \<Rightarrow> nat \<Rightarrow> string option" where
  "session_status d session_id =
     map_option s_status (find (\<lambda>r. s_id r = session_id) (generation_sessions d))"

section \<open>Configuration\<close>

text \<open>The constants of \<^verbatim>\<open>config.py\<close> that the pipeline reads.\<close>

definition PRODUCTS_TO_SELECT_DAILY :: nat where
  "PRODUCTS_TO_SELECT_DAILY = 5"

definition KLINGAI_POLLING_INTERVAL :: int where
  "KLINGAI_POLLING_INTERVAL = 30"

definition KLINGAI_TASK_TIMEOUT :: int where
  "KLINGAI_TASK_TIMEOUT = 600"

section \<open>Catalog items and de-duplication\<close>

text \<open>The dictionary that \<^verbatim>\<open>cscart._normalize_product\<close> builds for a catalog item.\<close>

record product =
  cscart_id :: string
  name :: string
  category :: string
  image_url :: string
  price :: rat
  vendor :: string
  timestamp :: int

text \<open>
  The loop of both runs:
  \<^verbatim>\<open>for p in new_products + popular_products: if p["cscart_id"] not in seen: ...\<close>
  with the set \<^verbatim>\<open>seen\<close> and the list \<^verbatim>\<open>all_products\<close> as loop state.
\<close>

fun dedup_loop :: "product list \<Rightarrow> string set \<Rightarrow> product list \<Rightarrow> product list" where
  "dedup_loop [] seen all_products = all_products"
| "dedup_loop (p # ps) seen all_products =
     (if cscart_id p \<notin> seen
      then dedup_loop ps (insert (cscart_id p) seen) (all_products @ [p])
      else dedup_loop ps seen all_products)"

definition deduplicate :: "product list \<Rightarrow> product list \<Rightarrow> product list" where
  "deduplicate new_products popular_products =
     dedup_loop (new_products @ popular_products) {} []"

text \<open>
  \<^verbatim>\<open>product_map = {p["cscart_id"]: p for p in all_products}\<close>: a later item with the
  same key replaces an earlier one.
\<close>

definition product_map :: "product list \<Rightarrow> string \<rightharpoonup> product" where
  "product_map all_products = map_of (rev (map (\<lambda>p. (cscart_id p, p)) all_products))"

section \<open>The curator\<close>

text \<open>
  What a call of the reasoning model comes to, seen from the two functions of
  \<^verbatim>\<open>claude_stylist.py\<close>: the API call raises \<^verbatim>\<open>anthropic.APIError\<close>; or the response
  has no content block (\<^verbatim>\<open>response.content[0]\<close> raises \<^verbatim>\<open>IndexError\<close>); or the text,
  with its code fence stripped, is not JSON (\<^verbatim>\<open>json.loads\<close> raises
  \<^verbatim>\<open>JSONDecodeError\<close>); or it is JSON but not an object, such as a bare array
  (\<^verbatim>\<open>result.get\<close> raises \<^verbatim>\<open>AttributeError\<close>); or it is an object, of which the function
  reads one list (\<^verbatim>\<open>ranked_products\<close> or \<^verbatim>\<open>prompts\<close>, empty when the key is absent).
\<close>

datatype 'a llm_reply = Api_failure | Empty_content | Not_json | Not_an_object | Object 'a

text \<open>
  An entry of the ranking: a dictionary read through \<^verbatim>\<open>s["cscart_id"]\<close>,
  \<^verbatim>\<open>s.get("score", 0)\<close> and \<^verbatim>\<open>s.get("selected", False)\<close>.  A key that is absent is
  \<open>None\<close>; scores are numbers.
\<close>

record scored_entry =
  e_cscart_id :: string
  e_score :: "rat option"
  e_reasoning :: "string option"
  e_selected :: "bool option"

definition fallback_entry :: "nat \<times> product \<Rightarrow> scored_entry" where
  "fallback_entry ip =
     \<lparr>e_cscart_id = cscart_id (snd ip), e_score = Some 5, e_reasoning = Some ''Fallback'',
      e_selected = Some (fst ip < PRODUCTS_TO_SELECT_DAILY)\<rparr>"

text \<open>
  \<^verbatim>\<open>select_and_score_products\<close>.  Only \<^verbatim>\<open>JSONDecodeError\<close> is answered with the
  fallback list; \<^verbatim>\<open>APIError\<close> and, through \<^verbatim>\<open>except Exception: ... raise\<close>, every
  other exception are raised again.  The log line evaluates
  \<^verbatim>\<open>ranked[0]['score'] if ranked else 'N/A'\<close>, a \<^verbatim>\<open>KeyError\<close> when the first entry has
  no score.
\<close>

definition select_and_score_products ::
  "product list \<Rightarrow> scored_entry list llm_reply \<Rightarrow> exn + scored_entry list" where
  "select_and_score_products all_products reply =
     (case reply of
        Api_failure \<Rightarrow> Inl APIError
      | Empty_content \<Rightarrow> Inl IndexError
      | Not_json \<Rightarrow> Inr (map fallback_entry (enumerate 0 all_products))
      | Not_an_object \<Rightarrow> Inl AttributeError
      | Object ranked \<Rightarrow>
          (case ranked of
             [] \<Rightarrow> Inr ranked
           | first # _ \<Rightarrow> if e_score first = None then Inl KeyError else Inr ranked))"

text \<open>A generation instruction: \<^verbatim>\<open>{"type": ..., "prompt": ...}\<close>.\<close>

record prompt_data =
  pd_type :: "string option"
  pd_prompt :: "string option"

definition fallback_prompts :: "product \<Rightarrow> prompt_data list" where
  "fallback_prompts product =
     [\<lparr>pd_type = Some ''detail'',
       pd_prompt = Some (''Extreme close-up macro shot of a '' @ name product @
         '', showcasing the rich texture and fine craftsmanship. '' @
         ''Smooth camera movement reveals intricate details. '' @
         ''Soft natural lighting on a clean background. '' @
         ''9:16 vertical format, 5 seconds, cinematic quality'')\<rparr>,
      \<lparr>pd_type = Some ''lifestyle'',
       pd_prompt = Some (''A stylish young person confidently walking through a modern city street, '' @
         ''wearing a '' @ name product @ ''. Natural sunlight creates soft shadows. '' @
         ''The camera follows with a smooth tracking shot, capturing the natural '' @
         ''movement of fabric and confident stride. Aspirational and authentic. '' @
         ''9:16 vertical format, 5 seconds, cinematic quality'')\<rparr>]"

text \<open>
  \<^verbatim>\<open>generate_prompts\<close>, with the same handlers; its log line reads \<^verbatim>\<open>p['type']\<close> of
  every prompt.
\<close>

definition generate_prompts :: "product \<Rightarrow> prompt_data list llm_reply \<Rightarrow> exn + prompt_data list" where
  "generate_prompts product reply =
     (case reply of
        Api_failure \<Rightarrow> Inl APIError
      | Empty_content \<Rightarrow> Inl IndexError
      | Not_json \<Rightarrow> Inr (fallback_prompts product)
      | Not_an_object \<Rightarrow> Inl AttributeError
      | Object prompts \<Rightarrow>
          if list_ex (\<lambda>p. pd_type p = None) prompts then Inl KeyError else Inr prompts)"

subsection \<open>Selection and its fallback\<close>

definition score_or_0 :: "scored_entry \<Rightarrow> rat" where
  "score_or_0 x = (case e_score x of None \<Rightarrow> 0 | Some v \<Rightarrow> v)"

text \<open>
  \<^verbatim>\<open>scored.sort(key=lambda x: x.get("score", 0), reverse=True)\<close>: Python's sort is
  stable, also with \<^verbatim>\<open>reverse=True\<close>, so entries with equal keys keep their order.  It
  is the stable insertion sort of HOL on the negated key.
\<close>

definition sort_by_score_desc :: "scored_entry list \<Rightarrow> scored_entry list" where
  "sort_by_score_desc scored = sort_key (\<lambda>x. - score_or_0 x) scored"

definition mark_selected :: "scored_entry \<Rightarrow> scored_entry" where
  "mark_selected s = s\<lparr>e_selected := Some True\<rparr>"

text \<open>
  The selection step of both runs, returning the list \<^verbatim>\<open>scored\<close> as the fallback
  leaves it (sorted in place, the dictionaries of the first \<open>n\<close> entries updated
  in place) and the list \<^verbatim>\<open>selected\<close>.  The scheduled run takes
  \<open>n = PRODUCTS_TO_SELECT_DAILY\<close>, the manual run the literal 5.
\<close>

definition select_products :: "nat \<Rightarrow> scored_entry list \<Rightarrow> scored_entry list \<times> scored_entry list" where
  "select_products n scored =
     (let selected = filter (\<lambda>s. e_selected s = Some True) scored in
      if selected \<noteq> [] then (scored, selected)
      else
        (let sorted = sort_by_score_desc scored;
             selected = map mark_selected (take n sorted)
         in (selected @ drop n sorted, selected)))"

text \<open>The loop that saves every scored item that is in \<^verbatim>\<open>product_map\<close>.\<close>

fun save_scored :: "db \<Rightarrow> datetime \<Rightarrow> (string \<rightharpoonup> product) \<Rightarrow> scored_entry list \<Rightarrow> db" where
  "save_scored d now pm [] = d"
| "save_scored d now pm (s # rest) =
     (case pm (e_cscart_id s) of
        None \<Rightarrow> save_scored d now pm rest
      | Some p \<Rightarrow>
          save_scored
            (fst (upsert_product d now (e_cscart_id s) (name p) (Some (category p))
                   (Some (image_url p)) (Some (price p)) (Some (vendor p)) (score_or_0 s)))
            now pm rest)"

section \<open>The render client\<close>

subsection \<open>Submission\<close>

text \<open>
  One HTTP exchange of \<^verbatim>\<open>klingai.create_video_task\<close>: \<^verbatim>\<open>session.post\<close> raises an
  \<^verbatim>\<open>aiohttp.ClientError\<close>, or there is a response with a status and, when it is read, a
  JSON object with \<^verbatim>\<open>code\<close> and \<^verbatim>\<open>data.task_id\<close>.
\<close>

record submit_body =
  b_code :: "int option"
  b_task_id :: "string option"

datatype submit_http = Post_client_error | Post_response nat submit_body

definition max_retries :: nat where
  "max_retries = 3"

text \<open>
  The loop \<^verbatim>\<open>for attempt in range(max_retries)\<close>.  The result is paired with the list
  of the seconds slept, in order.  Status 429 sleeps \<open>2 ^ attempt * 5\<close> and continues;
  a status from 500 sleeps 60 and continues; \<^verbatim>\<open>raise_for_status()\<close> raises for any
  other status from 400, and that \<^verbatim>\<open>ClientResponseError\<close> is an
  \<^verbatim>\<open>aiohttp.ClientError\<close>, handled like the one of \<^verbatim>\<open>session.post\<close>: raised again on
  the last attempt, else a sleep of 5 and the next attempt.  A \<^verbatim>\<open>code\<close> other than 0
  raises \<^verbatim>\<open>ValueError\<close>, which no handler of the function catches.
\<close>

definition slept :: "nat \<Rightarrow> nat list \<times> (exn + string) \<Rightarrow> nat list \<times> (exn + string)" where
  "slept w r = (w # fst r, snd r)"

fun attempts :: "(nat \<Rightarrow> submit_http) \<Rightarrow> nat list \<Rightarrow> nat list \<times> (exn + string)" where
  "attempts http [] = ([], Inl RuntimeError)"
| "attempts http (attempt # rest) =
     (case http attempt of
        Post_client_error \<Rightarrow>
          if attempt = max_retries - 1 then ([], Inl ClientError)
          else slept 5 (attempts http rest)
      | Post_response status body \<Rightarrow>
          if status = 429 then slept (2 ^ attempt * 5) (attempts http rest)
          else if status \<ge> 500 then slept 60 (attempts http rest)
          else if status \<ge> 400 then
            (if attempt = max_retries - 1 then ([], Inl ClientError)
             else slept 5 (attempts http rest))
          else if b_code body \<noteq> Some 0 then ([], Inl ValueError)
          else (case b_task_id body of
                  None \<Rightarrow> ([], Inl KeyError)
                | Some task_id \<Rightarrow> ([], Inr task_id)))"

definition klingai_create_video_task :: "(nat \<Rightarrow> submit_http) \<Rightarrow> nat list \<times> (exn + string)" where
  "klingai_create_video_task http = attempts http [0..<max_retries]"

subsection \<open>Status and polling\<close>

record task_data =
  task_status :: "string option"
  task_status_msg :: "string option"
  videos :: "string option list"

record status_body =
  sb_code :: "int option"
  sb_message :: "string option"
  sb_data :: "task_data option"

text \<open>
  One exchange of \<^verbatim>\<open>get_task_status\<close>: an \<^verbatim>\<open>aiohttp.ClientError\<close> with its text
  (raised by \<^verbatim>\<open>session.get\<close> or by \<^verbatim>\<open>raise_for_status()\<close>), or the JSON object.  Of a
  video only \<^verbatim>\<open>url\<close> is kept.
\<close>

datatype status_http = Get_client_error string | Get_json status_body

record poll_result =
  r_status :: string
  r_video_url :: "string option"
  r_error :: "string option"

definition get_task_status :: "status_http \<Rightarrow> exn + poll_result" where
  "get_task_status h =
     (case h of
        Get_client_error e \<Rightarrow> Inr \<lparr>r_status = ''error'', r_video_url = None, r_error = Some e\<rparr>
      | Get_json data \<Rightarrow>
          if sb_code data \<noteq> Some 0 then
            Inr \<lparr>r_status = ''failed'', r_video_url = None,
                 r_error = Some (case sb_message data of None \<Rightarrow> ''Unknown error'' | Some m \<Rightarrow> m)\<rparr>
          else
            (case sb_data data of
               None \<Rightarrow> Inl KeyError
             | Some td \<Rightarrow>
                 (let status = (case task_status td of None \<Rightarrow> ''unknown'' | Some s \<Rightarrow> s) in
                  if status = ''succeed'' then
                    Inr \<lparr>r_status = status,
                         r_video_url =
                           (case videos td of [] \<Rightarrow> None
                            | v # _ \<Rightarrow> Some (case v of None \<Rightarrow> [] | Some u \<Rightarrow> u)),
                         r_error = None\<rparr>
                  else if status = ''failed'' then
                    Inr \<lparr>r_status = status, r_video_url = None,
                         r_error = Some (case task_status_msg td of
                                           None \<Rightarrow> ''Generation failed'' | Some m \<Rightarrow> m)\<rparr>
                  else Inr \<lparr>r_status = status, r_video_url = None, r_error = None\<rparr>)))"

definition timed_out :: poll_result where
  "timed_out = \<lparr>r_status = ''failed'', r_video_url = None, r_error = Some ''Timeout''\<rparr>"

text \<open>
  \<^verbatim>\<open>poll_task_until_done\<close>: \<open>http n\<close> is the exchange of the \<open>n\<close>-th query.  The
  loop \<^verbatim>\<open>while elapsed < timeout\<close> returns on \<^verbatim>\<open>succeed\<close> and on \<^verbatim>\<open>failed\<close>, and on
  every other status (\<^verbatim>\<open>error\<close> included) sleeps for the polling interval and adds
  it to \<^verbatim>\<open>elapsed\<close>.  An exception of \<^verbatim>\<open>get_task_status\<close> is not caught.
\<close>

function poll_loop :: "(nat \<Rightarrow> status_http) \<Rightarrow> int \<Rightarrow> int \<Rightarrow> nat \<Rightarrow> exn + poll_result" where
  "poll_loop http timeout elapsed n =
     (if elapsed < timeout then
        (case get_task_status (http n) of
           Inl e \<Rightarrow> Inl e
         | Inr result \<Rightarrow>
             if r_status result = ''succeed'' then Inr result
             else if r_status result = ''failed'' then Inr result
             else poll_loop http timeout (elapsed + KLINGAI_POLLING_INTERVAL) (Suc n))
      else Inr timed_out)"
  by pat_completeness auto
termination
  by (relation "measure (\<lambda>(http, timeout, elapsed, n). nat (timeout - elapsed))")
     (auto simp: KLINGAI_POLLING_INTERVAL_def)

definition poll_task_until_done :: "(nat \<Rightarrow> status_http) \<Rightarrow> int option \<Rightarrow> exn + poll_result" where
  "poll_task_until_done http timeout =
     poll_loop http (case timeout of None \<Rightarrow> KLINGAI_TASK_TIMEOUT | Some t \<Rightarrow> t) 0 0"

section \<open>The pipeline\<close>

text \<open>
  What the outside world answers during one run: the two catalog queries (a list, or
  the exception \<^verbatim>\<open>cscart.get_products\<close> raises again), the curator's reply to the
  scoring request and to the prompt request for a product, the exchanges of the
  render service for the submission of an image and a prompt (by attempt number)
  and for the status queries of a remote task (by query number).
\<close>

record env =
  get_new_products :: "exn + product list"
  get_popular_products :: "exn + product list"
  env_scoring :: "scored_entry list llm_reply"
  env_prompts :: "product \<Rightarrow> prompt_data list llm_reply"
  env_submit :: "string \<Rightarrow> string \<Rightarrow> nat \<Rightarrow> submit_http"
  env_status :: "string \<Rightarrow> nat \<Rightarrow> status_http"

text \<open>
  The messages to the operators, by kind (their texts are Russian prose).  The
  messaging transport itself is not modelled: a message is recorded as sent, and
  the write of the message id into \<^verbatim>\<open>telegram_message_id\<close> that follows a delivery
  is left out (no property below reads that column).
\<close>

datatype notice =
    Run_started | No_products | Tasks_submitted nat | No_tasks_created
  | For_approval nat | Task_failed nat | Run_finished nat nat | None_succeeded nat
  | Run_failed exn

definition kw_status :: "string \<Rightarrow> session_update" where
  "kw_status v = no_session_kwargs\<lparr>set_session_status := Some v\<rparr>"

definition kw_products_fetched :: "nat \<Rightarrow> session_update" where
  "kw_products_fetched v = no_session_kwargs\<lparr>set_products_fetched := Some v\<rparr>"

definition kw_products_selected :: "nat \<Rightarrow> session_update" where
  "kw_products_selected v = no_session_kwargs\<lparr>set_products_selected := Some v\<rparr>"

definition kw_videos_generated :: "nat \<Rightarrow> session_update" where
  "kw_videos_generated v = no_session_kwargs\<lparr>set_videos_generated := Some v\<rparr>"

definition task_status_kw :: "string \<Rightarrow> task_update" where
  "task_status_kw v = no_kwargs\<lparr>set_status := Some v\<rparr>"

subsection \<open>Instruction generation and fan-out\<close>

text \<open>
  The inner loop \<^verbatim>\<open>for prompt_data in prompts\<close>, the same text in both runs.  The
  \<^verbatim>\<open>try\<close> encloses the submission and the insert; \<^verbatim>\<open>except Exception\<close> logs and
  goes on with the next prompt.
\<close>

fun submit_prompts ::
  "(string \<Rightarrow> string \<Rightarrow> nat \<Rightarrow> submit_http) \<Rightarrow> datetime \<Rightarrow> product \<Rightarrow> nat \<Rightarrow> prompt_data list \<Rightarrow>
   db \<Rightarrow> nat list \<Rightarrow> db \<times> nat list" where
  "submit_prompts submit now product product_id [] d task_ids = (d, task_ids)"
| "submit_prompts submit now product product_id (pd # rest) d task_ids =
     (let prompt_text = (case pd_prompt pd of None \<Rightarrow> [] | Some t \<Rightarrow> t);
          prompt_type = (case pd_type pd of None \<Rightarrow> ''unknown'' | Some t \<Rightarrow> t)
      in if prompt_text = [] then submit_prompts submit now product product_id rest d task_ids
         else
           (case snd (klingai_create_video_task (submit (image_url product) prompt_text)) of
              Inl e \<Rightarrow> submit_prompts submit now product product_id rest d task_ids
            | Inr klingai_task_id \<Rightarrow>
                (case create_video_task d now product_id klingai_task_id prompt_text prompt_type of
                   Inl e \<Rightarrow> submit_prompts submit now product product_id rest d task_ids
                 | Inr (d', task_id) \<Rightarrow>
                     submit_prompts submit now product product_id rest d' (task_ids @ [task_id]))))"

text \<open>
  The outer loop \<^verbatim>\<open>for sel in selected\<close>.  \<^verbatim>\<open>generate_prompts\<close> is called outside
  the \<^verbatim>\<open>try\<close> of the inner loop, so its exception leaves the loop; the third
  component of the result is that exception.
\<close>

fun fan_out ::
  "env \<Rightarrow> datetime \<Rightarrow> (string \<rightharpoonup> product) \<Rightarrow> scored_entry list \<Rightarrow> db \<Rightarrow> nat list \<Rightarrow>
   db \<times> nat list \<times> exn option" where
  "fan_out env now pm [] d task_ids = (d, task_ids, None)"
| "fan_out env now pm (sel # rest) d task_ids =
     (case pm (e_cscart_id sel) of
        None \<Rightarrow> fan_out env now pm rest d task_ids
      | Some product \<Rightarrow>
          if product_has_video_today d now (e_cscart_id sel)
          then fan_out env now pm rest d task_ids
          else
            (case get_product_by_cscart_id d (e_cscart_id sel) of
               None \<Rightarrow> fan_out env now pm rest d task_ids
             | Some db_product \<Rightarrow>
                 (case generate_prompts product (env_prompts env product) of
                    Inl e \<Rightarrow> (d, task_ids, Some e)
                  | Inr prompts \<Rightarrow>
                      (case submit_prompts (env_submit env) now product (p_id db_product)
                              prompts d task_ids of
                         (d', task_ids') \<Rightarrow> fan_out env now pm rest d' task_ids'))))"

subsection \<open>Polling the created jobs\<close>

text \<open>
  The loop \<^verbatim>\<open>for task_id in task_ids\<close> of the scheduled run (step 5) and of
  \<^verbatim>\<open>_poll_and_send_videos\<close>.  The two differ in one point: on a failed job the
  manual run sends a message, the scheduled run only logs (\<open>tell\<close>).  The loop
  state is the store, the counter \<^verbatim>\<open>completed\<close> and the messages sent; an
  exception of the status query leaves the loop.
\<close>

fun poll_jobs ::
  "bool \<Rightarrow> (string \<Rightarrow> nat \<Rightarrow> status_http) \<Rightarrow> datetime \<Rightarrow> nat list \<Rightarrow> db \<Rightarrow> nat \<Rightarrow> notice list \<Rightarrow>
   db \<times> nat \<times> notice list \<times> exn option" where
  "poll_jobs tell status now [] d completed ns = (d, completed, ns, None)"
| "poll_jobs tell status now (task_id # rest) d completed ns =
     (case get_video_task d task_id of
        None \<Rightarrow> poll_jobs tell status now rest d completed ns
      | Some task \<Rightarrow>
          (case vt_klingai_task_id task of
             None \<Rightarrow> poll_jobs tell status now rest d completed ns
           | Some klingai_task_id \<Rightarrow>
               if klingai_task_id = [] then poll_jobs tell status now rest d completed ns
               else
                 (case poll_task_until_done (status klingai_task_id) None of
                    Inl e \<Rightarrow> (d, completed, ns, Some e)
                  | Inr result \<Rightarrow>
                      if r_status result = ''succeed'' then
                        poll_jobs tell status now rest
                          (update_video_task d now task_id
                             \<lparr>set_status = Some ''succeed'',
                              set_video_url =
                                Some (case r_video_url result of None \<Rightarrow> [] | Some u \<Rightarrow> u),
                              set_telegram_message_id = None\<rparr>)
                          (completed + 1) (ns @ [For_approval task_id])
                      else
                        poll_jobs tell status now rest
                          (update_video_task d now task_id (task_status_kw ''failed''))
                          completed (ns @ (if tell then [Task_failed task_id] else [])))))"

subsection \<open>The scheduled run\<close>

definition scheduled_fan_out ::
  "env \<Rightarrow> datetime \<Rightarrow> nat \<Rightarrow> (string \<rightharpoonup> product) \<Rightarrow> scored_entry list \<Rightarrow> db \<Rightarrow>
   db \<times> notice list \<times> exn option" where
  "scheduled_fan_out env now session_id pm selected d =
     (case fan_out env now pm selected d [] of
        (d1, task_ids, Some e) \<Rightarrow> (d1, [Run_started], Some e)
      | (d1, task_ids, None) \<Rightarrow>
          (let total_tasks = length task_ids;
               d2 = update_session d1 session_id (kw_videos_generated total_tasks);
               ns = [Run_started, Tasks_submitted total_tasks]
           in if task_ids = []
              then (update_session d2 session_id (kw_status ''failed''),
                    ns @ [No_tasks_created], None)
              else
                (case poll_jobs False (env_status env) now task_ids d2 0 ns of
                   (d3, completed, ns', Some e) \<Rightarrow> (d3, ns', Some e)
                 | (d3, completed, ns', None) \<Rightarrow>
                     (update_session d3 session_id (kw_status ''completed''),
                      ns' @ [Run_finished completed total_tasks], None))))"

definition scheduled_curate ::
  "env \<Rightarrow> datetime \<Rightarrow> nat \<Rightarrow> product list \<Rightarrow> db \<Rightarrow> db \<times> notice list \<times> exn option" where
  "scheduled_curate env now session_id all_products d =
     (case select_and_score_products all_products (env_scoring env) of
        Inl e \<Rightarrow> (d, [Run_started], Some e)
      | Inr ranked \<Rightarrow>
          (case select_products PRODUCTS_TO_SELECT_DAILY ranked of
             (scored, selected) \<Rightarrow>
               (let d1 = update_session d session_id (kw_products_selected (length selected));
                    pm = product_map all_products;
                    d2 = save_scored d1 now pm scored
                in scheduled_fan_out env now session_id pm selected d2)))"

text \<open>The body of the \<^verbatim>\<open>try\<close> of \<^verbatim>\<open>daily_generation_job\<close>.\<close>

definition daily_generation_body ::
  "env \<Rightarrow> datetime \<Rightarrow> nat \<Rightarrow> db \<Rightarrow> db \<times> notice list \<times> exn option" where
  "daily_generation_body env now session_id d =
     (case get_new_products env of
        Inl e \<Rightarrow> (d, [Run_started], Some e)
      | Inr new_products \<Rightarrow>
          (case get_popular_products env of
             Inl e \<Rightarrow> (d, [Run_started], Some e)
           | Inr popular_products \<Rightarrow>
               (let all_products = deduplicate new_products popular_products;
                    d1 = update_session d session_id (kw_products_fetched (length all_products))
                in if all_products = []
                   then (update_session d1 session_id (kw_status ''failed''),
                         [Run_started, No_products], None)
                   else scheduled_curate env now session_id all_products d1)))"

text \<open>
  \<^verbatim>\<open>daily_generation_job\<close>: the session row is created before the \<^verbatim>\<open>try\<close>; the handler
  \<^verbatim>\<open>except Exception\<close> marks the session failed and tells the operators.
\<close>

definition daily_generation_job :: "env \<Rightarrow> datetime \<Rightarrow> db \<Rightarrow> db \<times> notice list" where
  "daily_generation_job env now d =
     (case create_session d now of
        (d0, session_id) \<Rightarrow>
          (case daily_generation_body env now session_id d0 of
             (d1, ns, None) \<Rightarrow> (d1, ns)
           | (d1, ns, Some e) \<Rightarrow>
               (update_session d1 session_id (kw_status ''failed''), ns @ [Run_failed e])))"

subsection \<open>The manual run\<close>

text \<open>
  \<^verbatim>\<open>_poll_and_send_videos\<close>, the background task of the manual run.  Nothing catches
  an exception of the loop: the task ends there, the session is not updated.
\<close>

definition poll_and_send_videos ::
  "env \<Rightarrow> datetime \<Rightarrow> nat list \<Rightarrow> nat option \<Rightarrow> db \<Rightarrow> db \<times> notice list" where
  "poll_and_send_videos env now task_ids session_id d =
     (case poll_jobs True (env_status env) now task_ids d 0 [] of
        (d1, completed, ns, Some e) \<Rightarrow> (d1, ns)
      | (d1, completed, ns, None) \<Rightarrow>
          (let total = length task_ids;
               d2 = (case session_id of
                       None \<Rightarrow> d1
                     | Some sid \<Rightarrow>
                         if sid = 0 then d1
                         else update_session d1 sid
                                (no_session_kwargs\<lparr>set_videos_generated := Some total,
                                   set_session_status := Some ''completed''\<rparr>))
           in (d2, ns @ (if completed > 0 then [Run_finished completed total]
                         else if total > 0 then [None_succeeded total] else []))))"

text \<open>
  \<^verbatim>\<open>cmd_generate\<close>, for a caller who is an administrator.  The session row is
  created after the selection step; the handler \<^verbatim>\<open>except Exception\<close> edits the
  message and touches no session.  The third component is the background task that
  the run starts: the job ids to poll and the session id.
\<close>

definition manual_fan_out ::
  "env \<Rightarrow> datetime \<Rightarrow> nat \<Rightarrow> (string \<rightharpoonup> product) \<Rightarrow> scored_entry list \<Rightarrow> db \<Rightarrow>
   db \<times> notice list \<times> (nat list \<times> nat) option" where
  "manual_fan_out env now session_id pm selected d =
     (case fan_out env now pm selected d [] of
        (d1, tasks_created, Some e) \<Rightarrow> (d1, [Run_failed e], None)
      | (d1, tasks_created, None) \<Rightarrow>
          (let total_tasks = length tasks_created;
               d2 = update_session d1 session_id (kw_videos_generated total_tasks)
           in if tasks_created \<noteq> []
              then (d2, [Tasks_submitted total_tasks], Some (tasks_created, session_id))
              else (update_session d2 session_id (kw_status ''failed''),
                    [No_tasks_created], None)))"

definition cmd_generate ::
  "env \<Rightarrow> datetime \<Rightarrow> db \<Rightarrow> db \<times> notice list \<times> (nat list \<times> nat) option" where
  "cmd_generate env now d =
     (case get_new_products env of
        Inl e \<Rightarrow> (d, [Run_failed e], None)
      | Inr new_products \<Rightarrow>
          (case get_popular_products env of
             Inl e \<Rightarrow> (d, [Run_failed e], None)
           | Inr popular_products \<Rightarrow>
               (let all_products = deduplicate new_products popular_products in
                if all_products = [] then (d, [No_products], None)
                else
                  (case select_and_score_products all_products (env_scoring env) of
                     Inl e \<Rightarrow> (d, [Run_failed e], None)
                   | Inr ranked \<Rightarrow>
                       (case select_products 5 ranked of
                          (scored, selected) \<Rightarrow>
                            (case create_session d now of
                               (d0, session_id) \<Rightarrow>
                                 (let d1 = update_session d0 session_id
                                        (no_session_kwargs
                                           \<lparr>set_products_fetched := Some (length all_products),
                                            set_products_selected := Some (length selected)\<rparr>);
                                      pm = product_map all_products;
                                      d2 = save_scored d1 now pm scored
                                  in manual_fan_out env now session_id pm selected d2)))))))"

subsection \<open>The approval callbacks\<close>

text \<open>
  \<^verbatim>\<open>_handle_approve\<close>, \<^verbatim>\<open>_handle_reject\<close> and \<^verbatim>\<open>_handle_publish\<close>: each parses the
  job id from the callback data and calls \<^verbatim>\<open>update_video_task\<close> with the new status.
  None of them reads the job first.
\<close>

definition handle_approve :: "db \<Rightarrow> datetime \<Rightarrow> nat \<Rightarrow> db" where
  "handle_approve d now task_id = update_video_task d now task_id (task_status_kw ''approved'')"

definition handle_reject :: "db \<Rightarrow> datetime \<Rightarrow> nat \<Rightarrow> db" where
  "handle_reject d now task_id = update_video_task d now task_id (task_status_kw ''rejected'')"

definition handle_publish :: "db \<Rightarrow> datetime \<Rightarrow> nat \<Rightarrow> db" where
  "handle_publish d now task_id = update_video_task d now task_id (task_status_kw ''published'')"

section \<open>Sample data\<close>

text \<open>
  An instant given by date, hour and minute, and a store that holds one catalog item
  and one job for it, both written at the instant \<open>created\<close> through the operations
  of the store (as \<^verbatim>\<open>test_data.py\<close> does for item 1006).
\<close>

definition at_utc :: "nat \<Rightarrow> nat \<Rightarrow> nat \<Rightarrow> nat \<Rightarrow> nat \<Rightarrow> datetime" where
  "at_utc y m d h mi =
     \<lparr>year = y, month = m, day = d, hour = h, minute = mi, second = 0, microsecond = 0\<rparr>"

definition store_with_job :: "string \<Rightarrow> datetime \<Rightarrow> db" where
  "store_with_job cid created =
     (case upsert_product empty_db created cid ''Item'' None None None None 0 of
        (d, product_id) \<Rightarrow>
          (case create_video_task d created product_id ''remote-1'' ''prompt'' ''detail'' of
             Inl e \<Rightarrow> d
           | Inr (d', task_id) \<Rightarrow> d'))"


text \<open>A catalog item with the given id and name (the other fields fixed).\<close>

definition item :: "string \<Rightarrow> string \<Rightarrow> product" where
  "item cid nm =
     \<lparr>cscart_id = cid, name = nm, category = ''Bags'', image_url = ''https://wabrum.com/images/'' @ cid,
      price = 100, vendor = ''Wabrum'', timestamp = 0\<rparr>"

text \<open>An entry of a ranking that carries no \<^verbatim>\<open>selected\<close> flag.\<close>

definition unflagged :: "string \<Rightarrow> rat option \<Rightarrow> scored_entry" where
  "unflagged cid sc = \<lparr>e_cscart_id = cid, e_score = sc, e_reasoning = None, e_selected = None\<rparr>"



section \<open>Notions used to state the properties of polling\<close>







definition succeed_body :: "string \<Rightarrow> status_http" where
  "succeed_body url =
     Get_json \<lparr>sb_code = Some 0, sb_message = None,
               sb_data = Some \<lparr>task_status = Some ''succeed'', task_status_msg = None,
                               videos = [Some url]\<rparr>\<rparr>"


text \<open>
  A world in which both catalog queries return no item: the curator and the render
  service are never asked.
\<close>

definition empty_catalog :: env where
  "empty_catalog =
     \<lparr>get_new_products = Inr [], get_popular_products = Inr [],
      env_scoring = Not_json, env_prompts = (\<lambda>p. Not_json),
      env_submit = (\<lambda>image prompt attempt. Post_client_error),
      env_status = (\<lambda>handle query. Get_client_error [])\<rparr>"

section \<open>Notions used to state the properties of the fan-out\<close>

text \<open>
  The text of an instruction as the inner loop reads it, and the instructions that
  lead to no job: those without text and those whose submission raises.
\<close>

definition prompt_text :: "prompt_data \<Rightarrow> string" where
  "prompt_text pd = (case pd_prompt pd of None \<Rightarrow> [] | Some t \<Rightarrow> t)"




definition accepting_service :: env where
  "accepting_service =
     empty_catalog\<lparr>env_submit :=
       (\<lambda>image prompt attempt. Post_response 200 \<lparr>b_code = Some 0, b_task_id = Some ''remote-1''\<rparr>),
       env_status := (\<lambda>handle query. succeed_body ''https://v/1.mp4'')\<rparr>"

section \<open>Basic facts\<close>

lemma range_max_retries: "[0..<max_retries] = [0, 1, 2]"
  by (simp add: max_retries_def upt_rec)

section \<open>Timestamps as text\<close>

lemma of_char_digit: "of_char (digit n) = (48 + n mod 10 :: nat)"
proof -
  have "n mod 10 < 10" by simp
  then have "n mod 10 = 0 \<or> n mod 10 = 1 \<or> n mod 10 = 2 \<or> n mod 10 = 3 \<or> n mod 10 = 4 \<or>
    n mod 10 = 5 \<or> n mod 10 = 6 \<or> n mod 10 = 7 \<or> n mod 10 = 8 \<or> n mod 10 = 9" by arith
  then show ?thesis unfolding digit_def by auto
qed

lemma text_le_digit:
  "text_le (digit a # x) (digit b # y) =
     (a mod 10 < b mod 10 \<or> (a mod 10 = b mod 10 \<and> text_le x y))"
  by (auto simp: of_char_digit)

lemma text_le_same_head: "text_le (c # x) (c # y) = text_le x y"
  by simp

lemma less_div_mod:
  fixes a b :: nat
  shows "(a < b) = (a div 10 < b div 10 \<or> (a div 10 = b div 10 \<and> a mod 10 < b mod 10))"
proof -
  define qa ra qb rb where "qa = a div 10" and "ra = a mod 10" and "qb = b div 10" and "rb = b mod 10"
  have a: "a = 10 * qa + ra" and b: "b = 10 * qb + rb" and r: "ra < 10" "rb < 10"
    by (simp_all add: qa_def ra_def qb_def rb_def)
  have "(10 * qa + ra < 10 * qb + rb) = (qa < qb \<or> (qa = qb \<and> ra < rb))"
    using r by linarith
  then show ?thesis
    using a b qa_def ra_def qb_def rb_def by metis
qed

lemma eq_div_mod:
  fixes a b :: nat
  shows "(a = b) = (a div 10 = b div 10 \<and> a mod 10 = b mod 10)"
  by (metis div_mult_mod_eq)

lemma lex_step:
  fixes a b :: nat
  shows "(a < b \<or> (a = b \<and> R)) =
    (a div 10 < b div 10 \<or>
     (a div 10 = b div 10 \<and> (a mod 10 < b mod 10 \<or> (a mod 10 = b mod 10 \<and> R))))"
  using less_div_mod[of a b] eq_div_mod[of a b] by blast

lemma pad2_le:
  assumes "a < 100" "b < 100"
  shows "text_le (pad2 a @ x) (pad2 b @ y) = (a < b \<or> (a = b \<and> text_le x y))"
proof -
  have small: "a div 10 mod 10 = a div 10" "b div 10 mod 10 = b div 10"
    using assms by simp_all
  have "text_le (pad2 a @ x) (pad2 b @ y) =
     (a div 10 < b div 10 \<or> (a div 10 = b div 10 \<and>
        (a mod 10 < b mod 10 \<or> (a mod 10 = b mod 10 \<and> text_le x y))))"
    unfolding pad2_def append_Cons append_Nil text_le_digit small ..
  then show ?thesis unfolding lex_step[of a b] .
qed

lemma pad4_le:
  assumes "a < 10000" "b < 10000"
  shows "text_le (pad4 a @ x) (pad4 b @ y) = (a < b \<or> (a = b \<and> text_le x y))"
proof -
  have small: "a div 1000 mod 10 = a div 1000" "b div 1000 mod 10 = b div 1000"
    using assms by simp_all
  have d: "n div 10 div 10 = n div 100" "n div 100 div 10 = n div 1000" for n :: nat
    by (simp_all add: div_mult2_eq[symmetric])
  have e2: "(a div 10 < b div 10 \<or> (a div 10 = b div 10 \<and> R)) =
    (a div 100 < b div 100 \<or> (a div 100 = b div 100 \<and>
       (a div 10 mod 10 < b div 10 mod 10 \<or> (a div 10 mod 10 = b div 10 mod 10 \<and> R))))" for R
    using lex_step[of "a div 10" "b div 10" R] unfolding d .
  have e3: "(a div 100 < b div 100 \<or> (a div 100 = b div 100 \<and> R)) =
    (a div 1000 < b div 1000 \<or> (a div 1000 = b div 1000 \<and>
       (a div 100 mod 10 < b div 100 mod 10 \<or> (a div 100 mod 10 = b div 100 mod 10 \<and> R))))" for R
    using lex_step[of "a div 100" "b div 100" R] unfolding d .
  have "text_le (pad4 a @ x) (pad4 b @ y) =
     (a div 1000 < b div 1000 \<or> (a div 1000 = b div 1000 \<and>
       (a div 100 mod 10 < b div 100 mod 10 \<or> (a div 100 mod 10 = b div 100 mod 10 \<and>
         (a div 10 mod 10 < b div 10 mod 10 \<or> (a div 10 mod 10 = b div 10 mod 10 \<and>
           (a mod 10 < b mod 10 \<or> (a mod 10 = b mod 10 \<and> text_le x y))))))))"
    unfolding pad4_def append_Cons append_Nil text_le_digit small ..
  also have "\<dots> = (a < b \<or> (a = b \<and> text_le x y))"
    unfolding lex_step[of a b "text_le x y"] e2 e3 ..
  finally show ?thesis .
qed

lemma valid_datetime_bounds:
  assumes "valid_datetime t"
  shows "year t < 10000" "month t < 100" "day t < 100"
proof -
  have "days_in_month (year t) (month t) \<le> 31" by (simp add: days_in_month_def)
  with assms show "year t < 10000" "month t < 100" "day t < 100"
    by (auto simp: valid_datetime_def)
qed

lemma fmt_date_le:
  assumes "valid_datetime s" "valid_datetime t"
  shows "text_le (fmt_date s @ x) (fmt_date t @ y) =
     (date_less (utc_date s) (utc_date t) \<or> (utc_date s = utc_date t \<and> text_le x y))"
proof -
  note bs = valid_datetime_bounds[OF assms(1)] and bt = valid_datetime_bounds[OF assms(2)]
  have "text_le (fmt_date s @ x) (fmt_date t @ y) =
      text_le (pad4 (year s) @ (CHR ''-'' # pad2 (month s) @ (CHR ''-'' # pad2 (day s) @ x)))
              (pad4 (year t) @ (CHR ''-'' # pad2 (month t) @ (CHR ''-'' # pad2 (day t) @ y)))"
    by (simp add: fmt_date_def)
  also have "\<dots> = (year s < year t \<or> (year s = year t \<and>
       (month s < month t \<or> (month s = month t \<and>
         (day s < day t \<or> (day s = day t \<and> text_le x y))))))"
    unfolding pad4_le[OF bs(1) bt(1)] text_le_same_head pad2_le[OF bs(2) bt(2)]
      pad2_le[OF bs(3) bt(3)] ..
  finally show ?thesis by (auto simp: utc_date_def)
qed

text \<open>
  The comparison of the query, for a row stamped by SQLite at the instant \<open>c\<close> and a
  check made at the instant \<open>now\<close>: on one and the same UTC date the two texts agree
  up to the date, and then the space of \<^verbatim>\<open>CURRENT_TIMESTAMP\<close> (byte 32) stands against the
  letter T of \<^verbatim>\<open>isoformat()\<close> (byte 84).  The row counts only when its date is later
  than the date of the check.
\<close>

lemma created_at_ge_today_start:
  assumes "valid_datetime c" "valid_datetime now"
  shows "sql_ge (CURRENT_TIMESTAMP c) (isoformat (today_start now)) =
     date_less (utc_date now) (utc_date c)"
proof -
  have v: "valid_datetime (today_start now)"
    using assms(2) by (simp add: valid_datetime_def today_start_def)
  have u: "utc_date (today_start now) = utc_date now"
    by (simp add: utc_date_def today_start_def)
  have "sql_ge (CURRENT_TIMESTAMP c) (isoformat (today_start now)) =
     text_le (fmt_date (today_start now) @ (CHR ''T'' # fmt_time (today_start now) @ ''+00:00''))
             (fmt_date c @ (CHR '' '' # fmt_time c))"
    by (simp add: sql_ge_def CURRENT_TIMESTAMP_def isoformat_def today_start_def)
  also have "\<dots> = date_less (utc_date now) (utc_date c)"
    unfolding fmt_date_le[OF v assms(1)] u by simp
  finally show ?thesis .
qed

lemma date_less_irrefl: "\<not> date_less a a"
  by (cases a) auto

lemma date_less_asym: "date_less a b \<Longrightarrow> \<not> date_less b a"
  by (cases a; cases b) auto

lemma product_has_video_today_iff:
  "product_has_video_today d now cid =
     list_ex (\<lambda>vt. sql_ge (vt_created_at vt) (isoformat (today_start now)) \<and>
                   list_ex (\<lambda>p. p_id p = vt_product_id vt \<and> p_cscart_id p = cid) (products d))
       (video_tasks d)"
proof -
  have "product_has_video_today d now cid =
     ([(vt, p). vt \<leftarrow> video_tasks d, p \<leftarrow> products d, p_id p = vt_product_id vt,
          p_cscart_id p = cid \<and> sql_ge (vt_created_at vt) (isoformat (today_start now))] \<noteq> [])"
    by (simp add: product_has_video_today_def Let_def)
  also have "\<dots> = list_ex (\<lambda>vt. sql_ge (vt_created_at vt) (isoformat (today_start now)) \<and>
                   list_ex (\<lambda>p. p_id p = vt_product_id vt \<and> p_cscart_id p = cid) (products d))
       (video_tasks d)"
    by (auto simp: list_ex_iff)
  finally show ?thesis .
qed

section \<open>The idempotency check\<close>

lemma store_with_job_rows:
  "products (store_with_job cid created) =
     [\<lparr>p_id = 1, p_cscart_id = cid, p_name = ''Item'', p_category = None, p_image_url = None,
       p_price = None, p_vendor = None, p_ai_score = 0,
       p_created_at = CURRENT_TIMESTAMP created\<rparr>]"
  "video_tasks (store_with_job cid created) =
     [\<lparr>vt_id = 1, vt_product_id = 1, vt_klingai_task_id = Some ''remote-1'',
       vt_prompt = Some ''prompt'', vt_prompt_type = Some ''detail'', vt_status = ''submitted'',
       vt_video_url = None, vt_telegram_message_id = None,
       vt_created_at = CURRENT_TIMESTAMP created, vt_updated_at = CURRENT_TIMESTAMP created\<rparr>]"
  by (simp_all add: store_with_job_def upsert_product_def get_product_by_cscart_id_def
      empty_db_def next_id_def create_video_task_def Let_def)

lemma valid_at_utc:
  "valid_datetime (at_utc y m d h mi) =
     (1 \<le> y \<and> y \<le> 9999 \<and> 1 \<le> m \<and> m \<le> 12 \<and> 1 \<le> d \<and> d \<le> days_in_month y m \<and> h < 24 \<and> mi < 60)"
  by (simp add: valid_datetime_def at_utc_def)

lemma utc_date_at_utc: "utc_date (at_utc y m d h mi) = (y, m, d)"
  by (simp add: utc_date_def at_utc_def)

lemma update_video_task_created_at:
  "map vt_created_at (video_tasks (update_video_task d now task_id u)) =
     map vt_created_at (video_tasks d)"
  "map vt_product_id (video_tasks (update_video_task d now task_id u)) =
     map vt_product_id (video_tasks d)"
  "products (update_video_task d now task_id u) = products d"
  by (simp_all add: update_video_task_def apply_task_update_def)

text \<open>
  A job stamped on the UTC date of the check is never counted, whatever its status:
  the general form of the defect behind the failing input of claim C10.
\<close>

lemma job_of_the_same_utc_date_not_counted:
  assumes "valid_datetime c" "valid_datetime now" "utc_date c = utc_date now"
  shows "\<not> sql_ge (CURRENT_TIMESTAMP c) (isoformat (today_start now))"
  using created_at_ge_today_start[OF assms(1,2)] assms(3) by (simp add: date_less_irrefl)

text \<open>
  Claim C10 (code defect).  The check is meant to count the jobs of every status
  created today, so that an item whose only job of today has failed is still skipped.
  The query has indeed no condition on the status, but it does not see today's jobs
  at all.  The failing input: item 1006 gets a job at 10:00 UTC on 2024-01-15, the
  job is marked failed at 10:30, and the check runs at 11:00 on the same day; the
  job is in the store with status failed and the check answers False.  A fan-out at
  11:00 for that item therefore does not skip it: with a render service that accepts
  every submission it creates the jobs 2 and 3.
\<close>

theorem failed_job_of_today_is_not_counted:
  "status_of (update_video_task (store_with_job ''1006'' (at_utc 2024 1 15 10 0))
                (at_utc 2024 1 15 10 30) 1 (task_status_kw ''failed'')) 1 = Some ''failed'' \<and>
   \<not> product_has_video_today
        (update_video_task (store_with_job ''1006'' (at_utc 2024 1 15 10 0))
           (at_utc 2024 1 15 10 30) 1 (task_status_kw ''failed''))
        (at_utc 2024 1 15 11 0) ''1006'' \<and>
   snd (fan_out accepting_service (at_utc 2024 1 15 11 0) (product_map [item ''1006'' ''Bag''])
          [unflagged ''1006'' None]
          (update_video_task (store_with_job ''1006'' (at_utc 2024 1 15 10 0))
             (at_utc 2024 1 15 10 30) 1 (task_status_kw ''failed'')) []) = ([2, 3], None)"
proof -
  let ?c = "at_utc 2024 1 15 10 0" and ?now = "at_utc 2024 1 15 11 0"
  let ?d = "update_video_task (store_with_job ''1006'' ?c) (at_utc 2024 1 15 10 30) 1
              (task_status_kw ''failed'')"
  let ?row = "\<lparr>p_id = 1, p_cscart_id = ''1006'', p_name = ''Item'', p_category = None,
       p_image_url = None, p_price = None, p_vendor = None, p_ai_score = 0,
       p_created_at = CURRENT_TIMESTAMP ?c\<rparr>"
  have valid: "valid_datetime ?c" "valid_datetime ?now"
    by (simp_all add: valid_at_utc days_in_month_def)
  have not_ge: "\<not> sql_ge (CURRENT_TIMESTAMP ?c) (isoformat (today_start ?now))"
    by (rule job_of_the_same_utc_date_not_counted[OF valid]) (simp add: utc_date_at_utc)
  have rows: "map vt_created_at (video_tasks ?d) = [CURRENT_TIMESTAMP ?c]"
    by (simp add: update_video_task_created_at store_with_job_rows)
  have "list_all (\<lambda>vt. \<not> sql_ge (vt_created_at vt) (isoformat (today_start ?now))) (video_tasks ?d)"
    using rows not_ge by (cases "video_tasks ?d") (auto simp: list_all_iff)
  then have fresh: "\<not> product_has_video_today ?d ?now ''1006''"
    unfolding product_has_video_today_iff by (auto simp: list_all_iff list_ex_iff)
  have failed: "status_of ?d 1 = Some ''failed''"
    by (simp add: status_of_def get_video_task_def update_video_task_def store_with_job_rows
        task_status_kw_def no_kwargs_def apply_task_update_def)
  define d where "d = ?d"
  have prods: "products d = [?row]"
    unfolding d_def update_video_task_created_at store_with_job_rows ..
  have ids: "map vt_id (video_tasks d) = [1]"
    unfolding d_def
    by (simp add: update_video_task_def store_with_job_rows apply_task_update_def)
  have found: "get_product_by_cscart_id d ''1006'' = Some ?row"
    unfolding get_product_by_cscart_id_def prods by simp
  have pm: "product_map [item ''1006'' ''Bag''] ''1006'' = Some (item ''1006'' ''Bag'')"
    by (simp add: product_map_def item_def)
  have id: "e_cscart_id (unflagged ''1006'' None) = ''1006''"
    by (simp add: unflagged_def)
  have gp: "generate_prompts (item ''1006'' ''Bag'')
      (env_prompts accepting_service (item ''1006'' ''Bag'')) =
      Inr (fallback_prompts (item ''1006'' ''Bag''))"
    by (simp add: generate_prompts_def accepting_service_def empty_catalog_def)
  have accepted: "snd (klingai_create_video_task (env_submit accepting_service img words)) =
      Inr ''remote-1''" for img words
    by (simp add: klingai_create_video_task_def range_max_retries accepting_service_def
        empty_catalog_def)
  have jobs: "snd (submit_prompts (env_submit accepting_service) ?now (item ''1006'' ''Bag'') 1
      (fallback_prompts (item ''1006'' ''Bag'')) d []) = [2, 3]"
    by (simp add: fallback_prompts_def accepted create_video_task_def prods ids next_id_def Let_def)
  have "snd (fan_out accepting_service ?now (product_map [item ''1006'' ''Bag''])
          [unflagged ''1006'' None] d []) = ([2, 3], None)"
    using jobs fresh[folded d_def] found
    by (auto simp: pm id gp split: prod.splits)
  then have "snd (fan_out accepting_service ?now (product_map [item ''1006'' ''Bag''])
          [unflagged ''1006'' None] ?d []) = ([2, 3], None)"
    unfolding d_def .
  with fresh failed show ?thesis by simp
qed

text \<open>
  Claim C1 as stated fails.  Item 1001 gets a job at 23:30 UTC on 2024-03-09 and is
  checked at 00:30 UTC on 2024-03-10.  On the business clock (UTC+5) both instants
  fall on 2024-03-10, the creation first, so the claim asks for True; the check
  answers False, since its day begins at midnight UTC.
\<close>

theorem same_business_day_counterexample:
  "valid_datetime (at_utc 2024 3 9 23 30) \<and> valid_datetime (at_utc 2024 3 10 0 30) \<and>
   business_date_utc5 (at_utc 2024 3 9 23 30) = (2024, 3, 10) \<and>
   business_date_utc5 (at_utc 2024 3 10 0 30) = (2024, 3, 10) \<and>
   map vt_product_id (video_tasks (store_with_job ''1001'' (at_utc 2024 3 9 23 30))) = [1] \<and>
   map p_cscart_id (products (store_with_job ''1001'' (at_utc 2024 3 9 23 30))) = [''1001''] \<and>
   \<not> product_has_video_today (store_with_job ''1001'' (at_utc 2024 3 9 23 30))
        (at_utc 2024 3 10 0 30) ''1001''"
proof -
  let ?c = "at_utc 2024 3 9 23 30" and ?now = "at_utc 2024 3 10 0 30"
  have valid: "valid_datetime ?c" "valid_datetime ?now"
    by (simp_all add: valid_at_utc days_in_month_def)
  have "\<not> sql_ge (CURRENT_TIMESTAMP ?c) (isoformat (today_start ?now))"
    unfolding created_at_ge_today_start[OF valid] by (simp add: utc_date_at_utc)
  then have "\<not> product_has_video_today (store_with_job ''1001'' ?c) ?now ''1001''"
    unfolding product_has_video_today_iff by (simp add: store_with_job_rows)
  moreover have "business_date_utc5 ?c = (2024, 3, 10)" "business_date_utc5 ?now = (2024, 3, 10)"
    by (simp_all add: business_date_utc5_def next_day_def utc_date_def at_utc_def
        days_in_month_def)
  ultimately show ?thesis using valid by (simp add: store_with_job_rows)
qed

text \<open>
  Claim C1, amended.  The day of the check is the UTC calendar day: the answer
  depends on the instant of the call only through its UTC date, and a job of the item
  that was stamped on an earlier UTC date is not counted, so that an item all of
  whose jobs date from earlier UTC days is eligible again.  (What the check answers
  for a job stamped on the UTC date of the call is the subject of claim C10.)
\<close>

theorem product_has_video_today_utc_day:
  assumes "valid_datetime now"
  shows "(utc_date now' = utc_date now \<longrightarrow>
            product_has_video_today d now' cid = product_has_video_today d now cid) \<and>
         (list_all (\<lambda>vt. list_ex (\<lambda>p. p_id p = vt_product_id vt \<and> p_cscart_id p = cid) (products d) \<longrightarrow>
                      (\<exists>c. valid_datetime c \<and> vt_created_at vt = CURRENT_TIMESTAMP c \<and>
                           date_less (utc_date c) (utc_date now)))
            (video_tasks d) \<longrightarrow>
          \<not> product_has_video_today d now cid)"
proof (intro conjI impI)
  assume "utc_date now' = utc_date now"
  then have "today_start now' = today_start now"
    by (simp add: utc_date_def today_start_def)
  then show "product_has_video_today d now' cid = product_has_video_today d now cid"
    by (simp add: product_has_video_today_def)
next
  assume older: "list_all (\<lambda>vt. list_ex (\<lambda>p. p_id p = vt_product_id vt \<and> p_cscart_id p = cid) (products d) \<longrightarrow>
                      (\<exists>c. valid_datetime c \<and> vt_created_at vt = CURRENT_TIMESTAMP c \<and>
                           date_less (utc_date c) (utc_date now)))
            (video_tasks d)"
  show "\<not> product_has_video_today d now cid"
  proof
    assume "product_has_video_today d now cid"
    then obtain vt where vt: "vt \<in> set (video_tasks d)"
        "sql_ge (vt_created_at vt) (isoformat (today_start now))"
        "list_ex (\<lambda>p. p_id p = vt_product_id vt \<and> p_cscart_id p = cid) (products d)"
      unfolding product_has_video_today_iff by (auto simp: list_ex_iff)
    from older vt(1,3) obtain c where c: "valid_datetime c"
        "vt_created_at vt = CURRENT_TIMESTAMP c" "date_less (utc_date c) (utc_date now)"
      by (auto simp: list_all_iff)
    from vt(2) have "date_less (utc_date now) (utc_date c)"
      unfolding c(2) created_at_ge_today_start[OF c(1) assms] .
    with c(3) show False by (simp add: date_less_asym)
  qed
qed

theorem product_has_video_today_utc_day_witness:
  "valid_datetime (at_utc 2024 3 10 0 30) \<and>
   utc_date (at_utc 2024 3 10 20 0) = utc_date (at_utc 2024 3 10 0 30) \<and>
   business_date_utc5 (at_utc 2024 3 10 20 0) \<noteq> business_date_utc5 (at_utc 2024 3 10 0 30) \<and>
   product_has_video_today (store_with_job ''1001'' (at_utc 2024 3 9 23 30))
       (at_utc 2024 3 10 20 0) ''1001'' =
     product_has_video_today (store_with_job ''1001'' (at_utc 2024 3 9 23 30))
       (at_utc 2024 3 10 0 30) ''1001'' \<and>
   \<not> product_has_video_today (store_with_job ''1001'' (at_utc 2024 3 9 23 30))
       (at_utc 2024 3 10 0 30) ''1001''"
proof -
  let ?c = "at_utc 2024 3 9 23 30" and ?now = "at_utc 2024 3 10 0 30"
  let ?now' = "at_utc 2024 3 10 20 0"
  have valid: "valid_datetime ?now" "valid_datetime ?c"
    by (simp_all add: valid_at_utc days_in_month_def)
  have same: "utc_date ?now' = utc_date ?now"
    by (simp add: utc_date_at_utc)
  have "valid_datetime ?c \<and> CURRENT_TIMESTAMP ?c = CURRENT_TIMESTAMP ?c \<and>
        date_less (utc_date ?c) (utc_date ?now)"
    using valid by (simp add: utc_date_at_utc)
  then have older: "list_all (\<lambda>vt. list_ex (\<lambda>p. p_id p = vt_product_id vt \<and> p_cscart_id p = ''1001'')
                        (products (store_with_job ''1001'' ?c)) \<longrightarrow>
                      (\<exists>c. valid_datetime c \<and> vt_created_at vt = CURRENT_TIMESTAMP c \<and>
                           date_less (utc_date c) (utc_date ?now)))
            (video_tasks (store_with_job ''1001'' ?c))"
    unfolding store_with_job_rows by (simp del: date_less.simps) blast
  have diff: "business_date_utc5 ?now' \<noteq> business_date_utc5 ?now"
    by (simp add: business_date_utc5_def next_day_def utc_date_def at_utc_def days_in_month_def)
  from product_has_video_today_utc_day[OF valid(1), of ?now' "store_with_job ''1001'' ?c" "''1001''"]
    same older diff valid(1)
  show ?thesis by blast
qed

section \<open>De-duplication\<close>

lemma dedup_loop_first_occurrences:
  "dedup_loop xs seen acc =
     acc @ map (nth xs)
       (filter (\<lambda>i. cscart_id (xs ! i) \<notin> seen \<and> (\<forall>j<i. cscart_id (xs ! j) \<noteq> cscart_id (xs ! i)))
          [0..<length xs])"
proof (induction xs arbitrary: seen acc)
  case Nil
  then show ?case by simp
next
  case (Cons p ps)
  have upt: "[0..<length (p # ps)] = 0 # map Suc [0..<length ps]"
    by (simp add: upt_conv_Cons map_Suc_upt del: upt_Suc)
  show ?case
  proof (cases "cscart_id p \<in> seen")
    case True
    have "filter (\<lambda>i. cscart_id (ps ! i) \<notin> seen \<and> (\<forall>j<i. cscart_id (ps ! j) \<noteq> cscart_id (ps ! i)))
            [0..<length ps] =
          filter (\<lambda>i. cscart_id (ps ! i) \<notin> seen \<and> cscart_id p \<noteq> cscart_id (ps ! i) \<and>
                      (\<forall>j<i. cscart_id (ps ! j) \<noteq> cscart_id (ps ! i))) [0..<length ps]"
      using True by (intro filter_cong) auto
    with True show ?thesis
      unfolding upt by (simp add: Cons.IH filter_map comp_def All_less_Suc2)
  next
    case False
    have "filter (\<lambda>i. cscart_id (ps ! i) \<notin> insert (cscart_id p) seen \<and>
                      (\<forall>j<i. cscart_id (ps ! j) \<noteq> cscart_id (ps ! i))) [0..<length ps] =
          filter (\<lambda>i. cscart_id (ps ! i) \<notin> seen \<and> cscart_id p \<noteq> cscart_id (ps ! i) \<and>
                      (\<forall>j<i. cscart_id (ps ! j) \<noteq> cscart_id (ps ! i))) [0..<length ps]"
      by (intro filter_cong) auto
    with False show ?thesis
      unfolding upt by (simp add: Cons.IH filter_map comp_def All_less_Suc2)
  qed
qed

lemma dedup_loop_ids:
  "set (map cscart_id (dedup_loop xs seen acc)) =
     set (map cscart_id acc) \<union> (set (map cscart_id xs) - seen)"
  by (induction xs arbitrary: seen acc) auto

lemma dedup_loop_distinct:
  "distinct (map cscart_id acc) \<Longrightarrow> set (map cscart_id acc) \<subseteq> seen \<Longrightarrow>
   distinct (map cscart_id (dedup_loop xs seen acc))"
proof (induction xs arbitrary: seen acc)
  case Nil
  then show ?case by simp
next
  case (Cons p ps)
  show ?case
  proof (cases "cscart_id p \<in> seen")
    case True
    with Cons show ?thesis by simp
  next
    case False
    have "distinct (map cscart_id (acc @ [p]))"
      using Cons.prems False by auto
    moreover have "set (map cscart_id (acc @ [p])) \<subseteq> insert (cscart_id p) seen"
      using Cons.prems by auto
    ultimately show ?thesis using False Cons.IH by simp
  qed
qed

lemma distinct_count_list:
  "distinct xs \<Longrightarrow> count_list xs k = (if k \<in> set xs then 1 else 0)"
  by (induction xs) auto

text \<open>
  Claim C3.  For every pair of fetched lists, in the list that the de-duplication
  builds every catalog id of the concatenation (recent, then popular) occurs exactly
  once and no other id occurs; and the list consists of the items standing at the
  positions of the concatenation where an id occurs for the first time, in the order
  of these positions.
\<close>

theorem deduplicate_first_occurrences:
  "(\<forall>k. count_list (map cscart_id (deduplicate recent popular)) k =
         (if k \<in> cscart_id ` set (recent @ popular) then 1 else 0)) \<and>
   deduplicate recent popular =
     map (nth (recent @ popular))
       (filter (\<lambda>i. \<forall>j<i. cscart_id ((recent @ popular) ! j) \<noteq> cscart_id ((recent @ popular) ! i))
          [0..<length (recent @ popular)])"
proof
  have "distinct (map cscart_id (deduplicate recent popular))"
    unfolding deduplicate_def by (rule dedup_loop_distinct) simp_all
  moreover have "set (map cscart_id (deduplicate recent popular)) = cscart_id ` set (recent @ popular)"
    unfolding deduplicate_def dedup_loop_ids by (simp add: image_Un)
  ultimately show "\<forall>k. count_list (map cscart_id (deduplicate recent popular)) k =
         (if k \<in> cscart_id ` set (recent @ popular) then 1 else 0)"
    by (simp add: distinct_count_list)
next
  show "deduplicate recent popular =
     map (nth (recent @ popular))
       (filter (\<lambda>i. \<forall>j<i. cscart_id ((recent @ popular) ! j) \<noteq> cscart_id ((recent @ popular) ! i))
          [0..<length (recent @ popular)])"
    unfolding deduplicate_def dedup_loop_first_occurrences by simp
qed

theorem deduplicate_first_occurrences_witness:
  "deduplicate [item ''1'' ''a'', item ''2'' ''b''] [item ''2'' ''other'', item ''1'' ''c'', item ''3'' ''d''] =
     [item ''1'' ''a'', item ''2'' ''b'', item ''3'' ''d''] \<and>
   count_list (map cscart_id (deduplicate [item ''1'' ''a'', item ''2'' ''b'']
       [item ''2'' ''other'', item ''1'' ''c'', item ''3'' ''d''])) ''2'' = 1"
proof -
  have ids: "cscart_id (item c n) = c" for c n
    by (simp add: item_def)
  have "''2'' \<in> cscart_id ` set ([item ''1'' ''a'', item ''2'' ''b''] @
          [item ''2'' ''other'', item ''1'' ''c'', item ''3'' ''d''])"
    by (simp add: ids)
  with deduplicate_first_occurrences[of "[item ''1'' ''a'', item ''2'' ''b'']"
      "[item ''2'' ''other'', item ''1'' ''c'', item ''3'' ''d'']", THEN conjunct1, THEN spec, of "''2''"]
  have "count_list (map cscart_id (deduplicate [item ''1'' ''a'', item ''2'' ''b'']
       [item ''2'' ''other'', item ''1'' ''c'', item ''3'' ''d''])) ''2'' = 1"
    by simp
  moreover have "deduplicate [item ''1'' ''a'', item ''2'' ''b'']
      [item ''2'' ''other'', item ''1'' ''c'', item ''3'' ''d''] =
     [item ''1'' ''a'', item ''2'' ''b'', item ''3'' ''d'']"
    by (simp add: deduplicate_def ids)
  ultimately show ?thesis by simp
qed

section \<open>Fallback selection\<close>







section \<open>Submission: retries and back-off\<close>












section \<open>Polling\<close>









lemma find_map_same_key:
  assumes "\<And>r. vt_id (f r) = vt_id r"
  shows "find (\<lambda>r. vt_id r = t) (map f rows) = map_option f (find (\<lambda>r. vt_id r = t) rows)"
  by (induction rows) (simp_all add: assms)

lemma vt_id_apply_task_update: "vt_id (if vt_id r = t then apply_task_update u stamp r else r) = vt_id r"
  by (simp add: apply_task_update_def)

lemma get_video_task_update:
  "u \<noteq> no_kwargs \<Longrightarrow>
   get_video_task (update_video_task d now t u) t' =
     map_option (\<lambda>r. if vt_id r = t then apply_task_update u (isoformat now) r else r)
       (get_video_task d t')"
  unfolding get_video_task_def update_video_task_def
  by (simp add: find_map_same_key[OF vt_id_apply_task_update])

lemma find_key: "find (\<lambda>r. vt_id r = t) rows = Some r \<Longrightarrow> vt_id r = t"
  by (induction rows) (auto split: if_splits)

lemma get_video_task_id: "get_video_task d t = Some r \<Longrightarrow> vt_id r = t"
  unfolding get_video_task_def by (rule find_key)


lemma status_kwargs: "task_status_kw s \<noteq> no_kwargs"
  by (simp add: task_status_kw_def no_kwargs_def)

text \<open>Setting a job's status: the job itself gets it, every other job keeps its own.\<close>

lemma status_of_update:
  assumes "u \<noteq> no_kwargs" "set_status u = Some s"
  shows "status_of (update_video_task d now t u) t' =
     (if t' = t then map_option (\<lambda>r. s) (get_video_task d t) else status_of d t')"
proof (cases "get_video_task d t'")
  case None
  then show ?thesis
    by (auto simp: status_of_def get_video_task_update[OF assms(1)])
next
  case (Some r)
  then have "vt_id r = t'" by (rule get_video_task_id)
  with Some assms(2) show ?thesis
    by (auto simp: status_of_def get_video_task_update[OF assms(1)] apply_task_update_def)
qed













section \<open>Approval callbacks\<close>

lemma status_of_set_status:
  "status_of (update_video_task d now t (task_status_kw s)) t' =
     (if t' = t \<and> status_of d t \<noteq> None then Some s else status_of d t')"
proof -
  have "set_status (task_status_kw s) = Some s"
    by (simp add: task_status_kw_def no_kwargs_def)
  from status_of_update[OF status_kwargs this, of d now t t'] show ?thesis
    by (cases "get_video_task d t") (auto simp: status_of_def)
qed

text \<open>
  Claim C2 as stated fails.  The job of item 1006 is marked failed; the approve
  callback for it then sets its status to approved.  A job that was only submitted
  becomes published by the publish callback.
\<close>

theorem approve_failed_job_counterexample:
  "status_of (update_video_task (store_with_job ''1006'' (at_utc 2024 1 15 10 0))
               (at_utc 2024 1 15 10 30) 1 (task_status_kw ''failed'')) 1 = Some ''failed'' \<and>
   status_of (handle_approve
               (update_video_task (store_with_job ''1006'' (at_utc 2024 1 15 10 0))
                  (at_utc 2024 1 15 10 30) 1 (task_status_kw ''failed''))
               (at_utc 2024 1 15 11 0) 1) 1 = Some ''approved'' \<and>
   status_of (store_with_job ''1006'' (at_utc 2024 1 15 10 0)) 1 = Some ''submitted'' \<and>
   status_of (handle_publish (store_with_job ''1006'' (at_utc 2024 1 15 10 0))
               (at_utc 2024 1 15 11 0) 1) 1 = Some ''published''"
proof -
  have s: "status_of (store_with_job ''1006'' (at_utc 2024 1 15 10 0)) 1 = Some ''submitted''"
    by (simp add: status_of_def get_video_task_def store_with_job_rows)
  then show ?thesis
    by (simp add: handle_approve_def handle_publish_def status_of_set_status)
qed

text \<open>
  Claim C2, amended.  The approve and the publish operation do not look at the
  status of the job: for a job that is in the store, approve sets its status to
  approved and publish sets it to published, whatever the status was; the status of
  every other job is unchanged, and for an id that is not in the store nothing
  changes.
\<close>

theorem approve_publish_unconditional:
  "status_of (handle_approve d now t) t' =
     (if t' = t \<and> status_of d t \<noteq> None then Some ''approved'' else status_of d t') \<and>
   status_of (handle_publish d now t) t' =
     (if t' = t \<and> status_of d t \<noteq> None then Some ''published'' else status_of d t')"
  by (simp add: handle_approve_def handle_publish_def status_of_set_status)

section \<open>Runs and their session rows\<close>

lemma foldr_max_ge: "x \<in> set ids \<Longrightarrow> x \<le> foldr max ids (0::nat)"
  by (induction ids) (auto simp: max_def)

lemma next_id_fresh: "next_id ids \<notin> set ids"
  using foldr_max_ge[of "next_id ids" ids] by (auto simp: next_id_def)

lemma find_map_same_session:
  assumes "\<And>r. s_id (f r) = s_id r"
  shows "find (\<lambda>r. s_id r = t) (map f rows) = map_option f (find (\<lambda>r. s_id r = t) rows)"
  by (induction rows) (simp_all add: assms)

lemma s_id_apply_session_update:
  "s_id (if s_id r = t then apply_session_update u r else r) = s_id r"
  by (simp add: apply_session_update_def)

lemma kw_not_empty:
  "kw_status v \<noteq> no_session_kwargs" "kw_products_fetched n \<noteq> no_session_kwargs"
  "kw_products_selected n \<noteq> no_session_kwargs" "kw_videos_generated n \<noteq> no_session_kwargs"
  by (simp_all add: kw_status_def kw_products_fetched_def kw_products_selected_def
      kw_videos_generated_def no_session_kwargs_def)

lemma session_ids_update_session:
  "map s_id (generation_sessions (update_session d sid u)) = map s_id (generation_sessions d)"
  by (simp add: update_session_def apply_session_update_def)

lemma find_session_exists:
  "sid \<in> set (map s_id rows) \<Longrightarrow> \<exists>r. find (\<lambda>r. s_id r = sid) rows = Some r"
  by (induction rows) auto

lemma session_status_set:
  assumes "sid \<in> set (map s_id (generation_sessions d))"
  shows "session_status (update_session d sid (kw_status v)) sid = Some v"
proof -
  obtain r where r: "find (\<lambda>r. s_id r = sid) (generation_sessions d) = Some r"
    using find_session_exists[OF assms] by blast
  then have "s_id r = sid" by (induction "generation_sessions d" arbitrary: r) (auto simp: find_Some_iff)
  with r show ?thesis
    by (simp add: session_status_def update_session_def kw_not_empty
        find_map_same_session[OF s_id_apply_session_update] apply_session_update_def kw_status_def
        no_session_kwargs_def)
qed

lemma create_session_row:
  "create_session d now = (d', sid) \<Longrightarrow>
   sid = next_id (map s_id (generation_sessions d)) \<and>
   map s_id (generation_sessions d') = map s_id (generation_sessions d) @ [sid] \<and>
   length (generation_sessions d') = Suc (length (generation_sessions d))"
  by (auto simp: create_session_def Let_def)

text \<open>
  The scheduled run creates its session row before anything else, and on an empty
  catalog marks that row failed and reports that there are no products.
\<close>

lemma scheduled_run_on_empty_catalog:
  assumes "get_new_products env = Inr new_products" "get_popular_products env = Inr popular_products"
    "deduplicate new_products popular_products = []"
  shows "length (generation_sessions (fst (daily_generation_job env now d))) =
           Suc (length (generation_sessions d)) \<and>
         session_status (fst (daily_generation_job env now d))
           (next_id (map s_id (generation_sessions d))) = Some ''failed'' \<and>
         snd (daily_generation_job env now d) = [Run_started, No_products]"
proof -
  obtain d0 sid where cs: "create_session d now = (d0, sid)"
    by (cases "create_session d now")
  note row = create_session_row[OF cs]
  let ?d1 = "update_session d0 sid (kw_products_fetched 0)"
  have run: "daily_generation_job env now d =
      (update_session ?d1 sid (kw_status ''failed''), [Run_started, No_products])"
    using assms cs by (simp add: daily_generation_job_def daily_generation_body_def)
  have "sid \<in> set (map s_id (generation_sessions ?d1))"
    unfolding session_ids_update_session using row by simp
  from session_status_set[OF this] row run show ?thesis
    by (simp add: length_map[symmetric, where f = s_id] session_ids_update_session
        del: length_map)
qed

text \<open>
  Claim C9 (code defect).  A run is to create one session row when it is invoked and,
  on an empty catalog, to mark that row failed.  The scheduled run does so; the
  manual run creates its row only after the selection step.  The failing input: a
  manual run on an empty store when both catalog queries return no item.  It reports
  that there are no products and leaves the store as it was, without any session
  row; the scheduled run in the same world leaves one row, marked failed.
\<close>

theorem manual_run_on_empty_catalog_leaves_no_session:
  "cmd_generate empty_catalog (at_utc 2024 1 15 10 0) empty_db = (empty_db, [No_products], None) \<and>
   generation_sessions empty_db = [] \<and>
   map s_status (generation_sessions
       (fst (daily_generation_job empty_catalog (at_utc 2024 1 15 10 0) empty_db))) = [''failed'']"
proof -
  have dd: "deduplicate [] [] = []" by (simp add: deduplicate_def)
  have "cmd_generate empty_catalog (at_utc 2024 1 15 10 0) empty_db = (empty_db, [No_products], None)"
    by (simp add: cmd_generate_def empty_catalog_def dd)
  moreover have "generation_sessions empty_db = []" by (simp add: empty_db_def)
  moreover have "map s_status (generation_sessions
       (fst (daily_generation_job empty_catalog (at_utc 2024 1 15 10 0) empty_db))) = [''failed'']"
    by (simp add: daily_generation_job_def daily_generation_body_def empty_catalog_def dd
        create_session_def empty_db_def next_id_def update_session_def kw_not_empty
        apply_session_update_def kw_status_def kw_products_fetched_def no_session_kwargs_def)
  ultimately show ?thesis by simp
qed

section \<open>The curator's reply to the scoring request\<close>

lemma fallback_entry_selected:
  "e_selected (fallback_entry (n, p)) = Some (n < PRODUCTS_TO_SELECT_DAILY)"
  by (simp add: fallback_entry_def)

lemma map_snd_enumerate_fun: "map (\<lambda>x. f (snd x)) (enumerate n ps) = map f ps"
  by (induction ps arbitrary: n) simp_all

lemma fallback_selected_prefix:
  "filter (\<lambda>s. e_selected s = Some True) (map fallback_entry (enumerate n ps)) =
     take (PRODUCTS_TO_SELECT_DAILY - n) (map fallback_entry (enumerate n ps))"
proof (induction ps arbitrary: n)
  case Nil
  then show ?case by simp
next
  case (Cons p ps)
  show ?case
  proof (cases "n < PRODUCTS_TO_SELECT_DAILY")
    case True
    then have "PRODUCTS_TO_SELECT_DAILY - n = Suc (PRODUCTS_TO_SELECT_DAILY - Suc n)" by simp
    with True show ?thesis by (simp add: Cons.IH fallback_entry_selected)
  next
    case False
    then show ?thesis by (simp add: Cons.IH fallback_entry_selected)
  qed
qed

lemma select_products_fallback:
  "select_products PRODUCTS_TO_SELECT_DAILY (map fallback_entry (enumerate 0 ps)) =
     (map fallback_entry (enumerate 0 ps),
      take PRODUCTS_TO_SELECT_DAILY (map fallback_entry (enumerate 0 ps)))"
proof (cases ps)
  case Nil
  then show ?thesis by (simp add: select_products_def sort_by_score_desc_def)
next
  case (Cons p rest)
  have "take PRODUCTS_TO_SELECT_DAILY (map fallback_entry (enumerate 0 ps)) \<noteq> []"
    using Cons by (simp add: PRODUCTS_TO_SELECT_DAILY_def)
  then show ?thesis
    using fallback_selected_prefix[of 0 ps] by (simp add: select_products_def)
qed

lemma fallback_entries:
  "map e_cscart_id (map fallback_entry (enumerate 0 ps)) = map cscart_id ps"
  "i < length ps \<Longrightarrow> e_score (map fallback_entry (enumerate 0 ps) ! i) = Some 5"
  "i < length ps \<Longrightarrow>
     e_selected (map fallback_entry (enumerate 0 ps) ! i) = Some (i < PRODUCTS_TO_SELECT_DAILY)"
  by (simp_all add: fallback_entry_def comp_def nth_enumerate_eq map_snd_enumerate_fun)

lemma scoring_raises_iff:
  "(\<exists>e. select_and_score_products ps reply = Inl e) =
     (reply = Api_failure \<or> reply = Empty_content \<or> reply = Not_an_object \<or>
      (\<exists>first rest. reply = Object (first # rest) \<and> e_score first = None))"
  by (cases reply) (auto simp: select_and_score_products_def split: list.splits)

lemma scheduled_curate_fallback:
  assumes "env_scoring env = Not_json"
  shows "scheduled_curate env now sid ps d =
     scheduled_fan_out env now sid (product_map ps)
       (take PRODUCTS_TO_SELECT_DAILY (map fallback_entry (enumerate 0 ps)))
       (save_scored
          (update_session d sid
             (kw_products_selected (min PRODUCTS_TO_SELECT_DAILY (length ps))))
          now (product_map ps) (map fallback_entry (enumerate 0 ps)))"
  using assms
  by (simp add: scheduled_curate_def select_and_score_products_def select_products_fallback
      min.commute Let_def)

lemma scheduled_curate_raises:
  assumes "select_and_score_products ps (env_scoring env) = Inl e"
  shows "scheduled_curate env now sid ps d = (d, [Run_started], Some e)"
  using assms by (simp add: scheduled_curate_def)

lemma scheduled_run_aborts_on_scoring_error:
  assumes "get_new_products env = Inr new_products" "get_popular_products env = Inr popular_products"
    "deduplicate new_products popular_products \<noteq> []"
    "select_and_score_products (deduplicate new_products popular_products) (env_scoring env) = Inl e"
  shows "session_status (fst (daily_generation_job env now d))
           (next_id (map s_id (generation_sessions d))) = Some ''failed'' \<and>
         snd (daily_generation_job env now d) = [Run_started, Run_failed e]"
proof -
  obtain d0 sid where cs: "create_session d now = (d0, sid)"
    by (cases "create_session d now")
  note row = create_session_row[OF cs]
  let ?d1 = "update_session d0 sid
      (kw_products_fetched (length (deduplicate new_products popular_products)))"
  have run: "daily_generation_job env now d =
      (update_session ?d1 sid (kw_status ''failed''), [Run_started, Run_failed e])"
    using assms cs
    by (simp add: daily_generation_job_def daily_generation_body_def scheduled_curate_raises)
  have "sid \<in> set (map s_id (generation_sessions ?d1))"
    unfolding session_ids_update_session using row by simp
  from session_status_set[OF this] row run show ?thesis by simp
qed

text \<open>
  Claim C6 as stated fails for output that is malformed without being unparseable.
  The catalog has one item and the curator answers the scoring request with JSON
  that is not an object (a bare array, say).  The scoring call raises
  \<^verbatim>\<open>AttributeError\<close>; the scheduled run ends there, its session marked failed.
\<close>

theorem malformed_reply_aborts_counterexample:
  "select_and_score_products [item ''1'' ''a''] Not_an_object = Inl AttributeError \<and>
   snd (daily_generation_job
          (empty_catalog\<lparr>get_new_products := Inr [item ''1'' ''a''], env_scoring := Not_an_object\<rparr>)
          (at_utc 2024 1 15 4 0) empty_db) = [Run_started, Run_failed AttributeError] \<and>
   session_status (fst (daily_generation_job
          (empty_catalog\<lparr>get_new_products := Inr [item ''1'' ''a''], env_scoring := Not_an_object\<rparr>)
          (at_utc 2024 1 15 4 0) empty_db)) 1 = Some ''failed''"
proof -
  let ?env = "empty_catalog\<lparr>get_new_products := Inr [item ''1'' ''a''], env_scoring := Not_an_object\<rparr>"
  have d: "deduplicate [item ''1'' ''a''] [] = [item ''1'' ''a'']"
    by (simp add: deduplicate_def)
  have s: "select_and_score_products [item ''1'' ''a''] Not_an_object = Inl AttributeError"
    by (simp add: select_and_score_products_def)
  have "session_status (fst (daily_generation_job ?env (at_utc 2024 1 15 4 0) empty_db))
           (next_id (map s_id (generation_sessions empty_db))) = Some ''failed'' \<and>
         snd (daily_generation_job ?env (at_utc 2024 1 15 4 0) empty_db) =
           [Run_started, Run_failed AttributeError]"
    by (rule scheduled_run_aborts_on_scoring_error[where new_products = "[item ''1'' ''a'']"
          and popular_products = "[]"])
       (simp_all add: empty_catalog_def d s)
  then show ?thesis using s by (simp add: empty_db_def next_id_def)
qed

text \<open>
  Claim C6, amended.  Text from the curator that is not JSON is caught by the
  scoring call, which returns the fallback ranking: every product in catalog order
  with score 5, the first \<open>PRODUCTS_TO_SELECT_DAILY\<close> of them marked selected; the
  scheduled run then goes on to save the scores and to fan out for exactly those
  first entries.  Every other failure of the scoring call is raised again and ends
  the run: a failure of the API call, and also a response without content, JSON
  that is not an object, and a ranking whose first entry has no score.
\<close>

theorem unparseable_reply_falls_back:
  "select_and_score_products ps Not_json = Inr (map fallback_entry (enumerate 0 ps)) \<and>
   map e_cscart_id (map fallback_entry (enumerate 0 ps)) = map cscart_id ps \<and>
   (\<forall>i<length ps. e_score (map fallback_entry (enumerate 0 ps) ! i) = Some 5 \<and>
        e_selected (map fallback_entry (enumerate 0 ps) ! i) = Some (i < PRODUCTS_TO_SELECT_DAILY)) \<and>
   (env_scoring env = Not_json \<longrightarrow>
      scheduled_curate env now sid ps d =
        scheduled_fan_out env now sid (product_map ps)
          (take PRODUCTS_TO_SELECT_DAILY (map fallback_entry (enumerate 0 ps)))
          (save_scored
             (update_session d sid
                (kw_products_selected (min PRODUCTS_TO_SELECT_DAILY (length ps))))
             now (product_map ps) (map fallback_entry (enumerate 0 ps)))) \<and>
   ((\<exists>e. select_and_score_products ps reply = Inl e) =
      (reply = Api_failure \<or> reply = Empty_content \<or> reply = Not_an_object \<or>
       (\<exists>first rest. reply = Object (first # rest) \<and> e_score first = None))) \<and>
   (get_new_products env = Inr new_products \<and> get_popular_products env = Inr popular_products \<and>
    deduplicate new_products popular_products \<noteq> [] \<and>
    select_and_score_products (deduplicate new_products popular_products) (env_scoring env) = Inl e \<longrightarrow>
      session_status (fst (daily_generation_job env now d))
        (next_id (map s_id (generation_sessions d))) = Some ''failed'' \<and>
      snd (daily_generation_job env now d) = [Run_started, Run_failed e])"
proof (intro conjI allI impI)
  show "select_and_score_products ps Not_json = Inr (map fallback_entry (enumerate 0 ps))"
    by (simp add: select_and_score_products_def)
  show "map e_cscart_id (map fallback_entry (enumerate 0 ps)) = map cscart_id ps"
    by (rule fallback_entries)
  show "e_score (map fallback_entry (enumerate 0 ps) ! i) = Some 5" if "i < length ps" for i
    using that by (rule fallback_entries)
  show "e_selected (map fallback_entry (enumerate 0 ps) ! i) = Some (i < PRODUCTS_TO_SELECT_DAILY)"
    if "i < length ps" for i
    using that by (rule fallback_entries)
  show "scheduled_curate env now sid ps d =
        scheduled_fan_out env now sid (product_map ps)
          (take PRODUCTS_TO_SELECT_DAILY (map fallback_entry (enumerate 0 ps)))
          (save_scored
             (update_session d sid
                (kw_products_selected (min PRODUCTS_TO_SELECT_DAILY (length ps))))
             now (product_map ps) (map fallback_entry (enumerate 0 ps)))"
    if "env_scoring env = Not_json"
    using that by (rule scheduled_curate_fallback)
  show "(\<exists>e. select_and_score_products ps reply = Inl e) =
      (reply = Api_failure \<or> reply = Empty_content \<or> reply = Not_an_object \<or>
       (\<exists>first rest. reply = Object (first # rest) \<and> e_score first = None))"
    by (rule scoring_raises_iff)
next
  assume a: "get_new_products env = Inr new_products \<and> get_popular_products env = Inr popular_products \<and>
    deduplicate new_products popular_products \<noteq> [] \<and>
    select_and_score_products (deduplicate new_products popular_products) (env_scoring env) = Inl e"
  then have a1: "get_new_products env = Inr new_products"
    and a2: "get_popular_products env = Inr popular_products"
    and a3: "deduplicate new_products popular_products \<noteq> []"
    and a4: "select_and_score_products (deduplicate new_products popular_products)
               (env_scoring env) = Inl e"
    by simp_all
  have "session_status (fst (daily_generation_job env now d))
        (next_id (map s_id (generation_sessions d))) = Some ''failed'' \<and>
      snd (daily_generation_job env now d) = [Run_started, Run_failed e]"
    by (rule scheduled_run_aborts_on_scoring_error[OF a1 a2 a3 a4])
  then show "session_status (fst (daily_generation_job env now d))
        (next_id (map s_id (generation_sessions d))) = Some ''failed''"
    and "snd (daily_generation_job env now d) = [Run_started, Run_failed e]"
    by simp_all
qed

theorem unparseable_reply_falls_back_witness:
  "select_and_score_products [item ''1'' ''a'', item ''2'' ''b''] Not_json =
     Inr [\<lparr>e_cscart_id = ''1'', e_score = Some 5, e_reasoning = Some ''Fallback'', e_selected = Some True\<rparr>,
          \<lparr>e_cscart_id = ''2'', e_score = Some 5, e_reasoning = Some ''Fallback'', e_selected = Some True\<rparr>] \<and>
   scheduled_curate empty_catalog (at_utc 2024 1 15 4 0) 1 [item ''1'' ''a'', item ''2'' ''b''] empty_db =
     scheduled_fan_out empty_catalog (at_utc 2024 1 15 4 0) 1
       (product_map [item ''1'' ''a'', item ''2'' ''b''])
       (take PRODUCTS_TO_SELECT_DAILY
          (map fallback_entry (enumerate 0 [item ''1'' ''a'', item ''2'' ''b''])))
       (save_scored
          (update_session empty_db 1
             (kw_products_selected (min PRODUCTS_TO_SELECT_DAILY (length [item ''1'' ''a'', item ''2'' ''b'']))))
          (at_utc 2024 1 15 4 0) (product_map [item ''1'' ''a'', item ''2'' ''b''])
          (map fallback_entry (enumerate 0 [item ''1'' ''a'', item ''2'' ''b'']))) \<and>
   snd (daily_generation_job
          (empty_catalog\<lparr>get_new_products := Inr [item ''1'' ''a''], env_scoring := Api_failure\<rparr>)
          (at_utc 2024 1 15 4 0) empty_db) = [Run_started, Run_failed APIError]"
proof -
  let ?ps = "[item ''1'' ''a'', item ''2'' ''b'']"
  let ?env = "empty_catalog\<lparr>get_new_products := Inr [item ''1'' ''a''], env_scoring := Api_failure\<rparr>"
  note t = unparseable_reply_falls_back[where ps = ?ps and env = empty_catalog
      and now = "at_utc 2024 1 15 4 0" and sid = 1 and d = empty_db]
  have "select_and_score_products ?ps Not_json = Inr (map fallback_entry (enumerate 0 ?ps))"
    using t by blast
  then have 1: "select_and_score_products ?ps Not_json =
     Inr [\<lparr>e_cscart_id = ''1'', e_score = Some 5, e_reasoning = Some ''Fallback'', e_selected = Some True\<rparr>,
          \<lparr>e_cscart_id = ''2'', e_score = Some 5, e_reasoning = Some ''Fallback'', e_selected = Some True\<rparr>]"
    by (simp add: fallback_entry_def item_def PRODUCTS_TO_SELECT_DAILY_def)
  have "env_scoring empty_catalog = Not_json" by (simp add: empty_catalog_def)
  with t have 2: "scheduled_curate empty_catalog (at_utc 2024 1 15 4 0) 1 ?ps empty_db =
     scheduled_fan_out empty_catalog (at_utc 2024 1 15 4 0) 1 (product_map ?ps)
       (take PRODUCTS_TO_SELECT_DAILY (map fallback_entry (enumerate 0 ?ps)))
       (save_scored
          (update_session empty_db 1
             (kw_products_selected (min PRODUCTS_TO_SELECT_DAILY (length ?ps))))
          (at_utc 2024 1 15 4 0) (product_map ?ps) (map fallback_entry (enumerate 0 ?ps)))"
    by blast
  have "get_new_products ?env = Inr [item ''1'' ''a''] \<and> get_popular_products ?env = Inr [] \<and>
    deduplicate [item ''1'' ''a''] [] \<noteq> [] \<and>
    select_and_score_products (deduplicate [item ''1'' ''a''] []) (env_scoring ?env) = Inl APIError"
    by (simp add: empty_catalog_def deduplicate_def select_and_score_products_def)
  with unparseable_reply_falls_back[where env = ?env and new_products = "[item ''1'' ''a'']"
      and popular_products = "[]" and e = APIError and now = "at_utc 2024 1 15 4 0" and d = empty_db]
  have 3: "snd (daily_generation_job ?env (at_utc 2024 1 15 4 0) empty_db) =
      [Run_started, Run_failed APIError]"
    by blast
  show ?thesis using 1 2 3 by blast
qed

section \<open>Fan-out: a failing submission is skipped\<close>














end
